theory Spec2Isabelle
  imports Complex_Main "HOL-Library.List_Lexorder" "HOL-Library.Char_ord" "HOL-Library.AList" "HOL-Library.Sublist"
begin

section \<open>Clinicore dashboard: values shared by the handlers of dashboard.js\<close>

text \<open>
  The dashboard is event-driven JavaScript. Every \<^verbatim>\<open>await\<close> of the source is a point
  where a collaborator (the prediction service, Firestore, the chat backend) either
  resolves with a value or rejects; a rejection that no \<^verbatim>\<open>try\<close> catches ends the
  handler. The model makes each of these an explicit value.
\<close>

datatype js_error = TypeError | ReferenceError | NetworkError | StoreError

text \<open>
  What \<^verbatim>\<open>await postJSON(url, body)\<close> (and \<^verbatim>\<open>fetch(...)\<close> followed by
  \<^verbatim>\<open>res.json()\<close>) can yield: the promise rejects (\<^verbatim>\<open>fetch\<close> failed or the body is
  not JSON), or it resolves with the parsed body. \<^verbatim>\<open>postJSON\<close> never looks at the HTTP
  status, so an error response that carries JSON resolves like any other. A body that
  is the JSON value \<^verbatim>\<open>null\<close> is kept apart, since reading a property of it throws.
\<close>

datatype 'a reply = Rejected | NullBody | Body 'a

section \<open>Data model\<close>

text \<open>
  A JavaScript number as far as the handlers distinguish it: a value or \<^verbatim>\<open>NaN\<close>.
  Rounding of doubles is not modelled; the handlers only compare, count and default.
\<close>

datatype jsnum = Num real | NaN

text \<open>
  The prediction form as the DOM holds it when the submit handler runs: the
  \<^verbatim>\<open>value\<close> of each input or select (a string, empty when nothing was entered) and
  the \<^verbatim>\<open>checked\<close> flag of each symptom box. Field \<open>el_x\<close> is the element with id
  \<^verbatim>\<open>x\<close>.
\<close>

record form =
  el_pname :: string
  el_age :: string
  el_gender :: string
  el_fever :: bool
  el_cough :: bool
  el_fatigue :: bool
  el_dbreath :: bool
  el_temp :: string
  el_hr :: string
  el_rr :: string
  el_spo2 :: string
  el_bp_cat :: string
  el_chol :: string

record payload =
  PatientName :: string
  Age :: jsnum
  Gender :: string
  Fever :: string
  Cough :: string
  Fatigue :: string
  DifficultyBreathing :: string
  temp :: jsnum
  hr :: jsnum
  rr :: jsnum
  spo2 :: jsnum
  BloodPressure :: string
  Cholesterol :: string

text \<open>
  The answers of the prediction service. A property that the body lacks is \<open>None\<close>
  (\<^verbatim>\<open>undefined\<close>); \<open>probability\<close> is \<open>None\<close> as well when the value is not of
  type \<^verbatim>\<open>number\<close>. An error answer is a body that carries only \<^verbatim>\<open>error\<close>, as the
  symptom checker of the same file expects it (\<^verbatim>\<open>if (data.error)\<close>).
\<close>

record top_entry =
  disease :: string
  confidence :: real

record disease_res =
  top3 :: "top_entry list option"
  d_error :: "string option"

record outcome_res =
  risk :: "string option"
  probability :: "real option"
  o_error :: "string option"

text \<open>
  The \<^verbatim>\<open>prediction\<close> object of a stored record with the three properties that the
  dashboard reads: \<^verbatim>\<open>disease_top\<close>, \<^verbatim>\<open>diseaseRes\<close> and \<^verbatim>\<open>outcomeRes\<close>.
\<close>

record prediction =
  disease_top :: "string option"
  diseaseRes :: "disease_res option"
  outcomeRes :: "outcome_res option"

text \<open>
  \<^verbatim>\<open>createdAt\<close> as \<^verbatim>\<open>d.data()\<close> returns it: a Firestore Timestamp (an object with
  \<^verbatim>\<open>toDate\<close>, here its milliseconds), \<^verbatim>\<open>null\<close> while the server timestamp of a
  local write is pending (or the field is missing), or some other truthy value that
  is not a Timestamp.
\<close>

datatype created_at = NoTimestamp | Timestamp nat | RawTime

record diag_record =
  patient_name :: string
  age :: jsnum
  features :: "payload option"
  prediction :: "prediction option"
  createdAt :: created_at
  createdBy :: "string option"

text \<open>
  The text of a chat message is kept as JavaScript holds it, a sequence of UTF-16
  code units, since \<^verbatim>\<open>trim\<close> depends on them; \<open>units\<close> gives the code units of
  an ASCII literal.
\<close>

type_synonym js_string = "nat list"

definition units :: "string \<Rightarrow> js_string" where
  "units s = map of_char s"

record chat_doc =
  uid :: string
  sender :: string
  message :: js_string
  timestamp :: nat

record user_profile =
  email :: string
  displayName :: string
  role :: "string option"

text \<open>What \<^verbatim>\<open>db.collection('users').doc(uid).get()\<close> yields.\<close>

datatype profile_lookup = LookupRejected | NotFound | Found user_profile

text \<open>
  Firestore as the dashboard uses it. \<open>diagnosis\<close> is the collection in the order of
  the query \<^verbatim>\<open>orderBy('createdAt','desc')\<close>, newest first; \<open>clock\<close> is what
  \<^verbatim>\<open>FieldValue.serverTimestamp()\<close> resolves to; \<open>online\<close> says whether a
  \<^verbatim>\<open>get\<close> or \<^verbatim>\<open>add\<close> on the collections resolves (otherwise it rejects).
\<close>

record firestore =
  diagnosis :: "diag_record list"
  chat_history :: "chat_doc list"
  users :: "string \<Rightarrow> profile_lookup"
  clock :: nat
  online :: bool

section \<open>Chat: sendMessage, appendMessage, saveChat\<close>

text \<open>
  What an identifier resolves to in the scope of a script: nothing (reading it throws
  a \<^verbatim>\<open>ReferenceError\<close>) or a value.
\<close>

datatype 'a binding = Unbound | Bound 'a

text \<open>
  The identifier \<^verbatim>\<open>auth\<close> in dashboard.js. The file neither declares nor imports it
  (its other handlers read \<^verbatim>\<open>firebase.auth().currentUser\<close>), and auth.js, a module,
  binds its \<^verbatim>\<open>const auth\<close> in its own scope and exports it only as
  \<^verbatim>\<open>window.AppAuth.auth\<close>.
\<close>

definition dashboard_auth :: "string option binding" where
  "dashboard_auth = Unbound"

text \<open>
  \<^verbatim>\<open>saveChat(sender, text)\<close>. The first statement reads \<^verbatim>\<open>auth.currentUser\<close>:
  \<open>a\<close> is what \<^verbatim>\<open>auth\<close> resolves to, bound to an object whose \<^verbatim>\<open>currentUser\<close> is
  the uid of the user or \<open>None\<close> for \<^verbatim>\<open>null\<close>. \<open>text\<close> is \<open>None\<close> for
  \<^verbatim>\<open>undefined\<close>, which Firestore refuses as a field value. The result pairs the store
  with the error of the returned promise, if it rejects.
\<close>

definition saveChat ::
  "string option binding \<Rightarrow> string \<Rightarrow> js_string option \<Rightarrow> firestore \<Rightarrow>
     firestore \<times> js_error option" where
  "saveChat a sndr text st =
     (case a of
        Unbound \<Rightarrow> (st, Some ReferenceError)
      | Bound user \<Rightarrow>
          (case user of
             None \<Rightarrow> (st, None)
           | Some u \<Rightarrow>
               (case text of
                  None \<Rightarrow> (st, Some StoreError)
                | Some t \<Rightarrow>
                    if online st
                    then (st\<lparr>chat_history :=
                               chat_history st @
                                 [\<lparr>uid = u, sender = sndr, message = t, timestamp = clock st\<rparr>],
                             clock := Suc (clock st)\<rparr>, None)
                    else (st, Some StoreError))))"

record chat_ui =
  chatInput :: js_string
  chat_box :: "(string \<times> js_string) list"
  spoken :: "js_string list"

text \<open>A template literal prints \<^verbatim>\<open>undefined\<close> for a missing value.\<close>

definition js_text :: "string option \<Rightarrow> string" where
  "js_text t = (case t of None \<Rightarrow> ''undefined'' | Some s \<Rightarrow> s)"

definition chat_text :: "js_string option \<Rightarrow> js_string" where
  "chat_text t = (case t of None \<Rightarrow> units ''undefined'' | Some s \<Rightarrow> s)"

text \<open>\<^verbatim>\<open>appendMessage(sender, text)\<close>: one more line in the chat box, spoken when it is the AI's.\<close>

definition appendMessage :: "string \<Rightarrow> js_string option \<Rightarrow> chat_ui \<Rightarrow> chat_ui" where
  "appendMessage sndr text ui =
     (let ui' = ui\<lparr>chat_box := chat_box ui @ [(sndr, chat_text text)]\<rparr>
      in if sndr = ''AI'' then ui'\<lparr>spoken := spoken ui' @ [chat_text text]\<rparr> else ui')"

text \<open>
  \<^verbatim>\<open>String.prototype.trim\<close> removes ECMAScript's white space and line terminators
  from both ends: tab, LF, VT, FF, CR, space, no-break space (U+00A0), U+1680,
  U+2000 to U+200A, the line and paragraph separators (U+2028, U+2029), U+202F,
  U+205F, U+3000 and the byte order mark (U+FEFF).
\<close>

definition js_space :: "nat \<Rightarrow> bool" where
  "js_space c =
     ((9 \<le> c \<and> c \<le> 13) \<or> c = 32 \<or> c = 160 \<or> c = 5760 \<or> (8192 \<le> c \<and> c \<le> 8202) \<or>
      c = 8232 \<or> c = 8233 \<or> c = 8239 \<or> c = 8287 \<or> c = 12288 \<or> c = 65279)"

definition trim :: "js_string \<Rightarrow> js_string" where
  "trim s = rev (dropWhile js_space (rev (dropWhile js_space s)))"

record chat_reply =
  reply :: "js_string option"

text \<open>
  \<^verbatim>\<open>sendMessage()\<close>. \<open>a\<close> is what \<^verbatim>\<open>auth\<close> resolves to for \<^verbatim>\<open>saveChat\<close>, \<open>r\<close>
  what the \<^verbatim>\<open>/chat\<close> request yields. Neither call of \<^verbatim>\<open>saveChat\<close> is awaited, so a
  rejection of its promise does not reach \<^verbatim>\<open>sendMessage\<close>: only the store is taken
  from it.
\<close>

definition sendMessage ::
  "string option binding \<Rightarrow> chat_reply reply \<Rightarrow> firestore \<times> chat_ui \<Rightarrow>
     (firestore \<times> chat_ui) \<times> js_error option" where
  "sendMessage a r s =
     (let (st, ui) = s; msg = trim (chatInput ui)
      in if msg = [] then ((st, ui), None)
         else
           let ui1 = appendMessage ''You'' (Some msg) ui;
               st1 = fst (saveChat a ''You'' (Some msg) st);
               ui2 = ui1\<lparr>chatInput := []\<rparr>
           in (case r of
                 Rejected \<Rightarrow> ((st1, ui2), Some NetworkError)
               | NullBody \<Rightarrow> ((st1, ui2), Some TypeError)
               | Body d \<Rightarrow>
                   let ui3 = appendMessage ''AI'' (reply d) ui2;
                       st2 = fst (saveChat a ''AI'' (reply d) st1)
                   in ((st2, ui3), None)))"

section \<open>The prediction form\<close>

definition yes_no :: "bool \<Rightarrow> string" where
  "yes_no b = (if b then ''Yes'' else ''No'')"

text \<open>
  \<^verbatim>\<open>Number(v || d)\<close> for the value \<open>v\<close> of an input: the empty string is falsy, so
  the default \<open>d\<close> is converted instead. \<open>to_Number\<close> is JavaScript's \<^verbatim>\<open>Number\<close> on
  a non-empty string, a parameter of the model.
\<close>

definition number_or :: "(string \<Rightarrow> jsnum) \<Rightarrow> real \<Rightarrow> string \<Rightarrow> jsnum" where
  "number_or to_Number d v = (if v = [] then Num d else to_Number v)"

text \<open>
  The \<^verbatim>\<open>payload\<close> literal of the submit handler. \<^verbatim>\<open>value || ''\<close> is the identity
  on strings; the three selects are read as they are.
\<close>

definition build_payload :: "(string \<Rightarrow> jsnum) \<Rightarrow> form \<Rightarrow> payload" where
  "build_payload to_Number f =
     \<lparr>PatientName = el_pname f,
      Age = number_or to_Number 0 (el_age f),
      Gender = el_gender f,
      Fever = yes_no (el_fever f),
      Cough = yes_no (el_cough f),
      Fatigue = yes_no (el_fatigue f),
      DifficultyBreathing = yes_no (el_dbreath f),
      temp = number_or to_Number 0 (el_temp f),
      hr = number_or to_Number 0 (el_hr f),
      rr = number_or to_Number 0 (el_rr f),
      spo2 = number_or to_Number 100 (el_spo2 f),
      BloodPressure = el_bp_cat f,
      Cholesterol = el_chol f\<rparr>"

section \<open>Plain objects used as counters\<close>

text \<open>
  \<^verbatim>\<open>dist\<close>, \<^verbatim>\<open>countsByDay\<close> and \<^verbatim>\<open>dxCount\<close> are object literals \<^verbatim>\<open>{}\<close> filled by
  \<^verbatim>\<open>o[k] = (o[k] || 0) + 1\<close>. An object is modelled by its own properties in the
  order of their creation. Reading a key that is not an own property finds the members
  that \<^verbatim>\<open>{}\<close> inherits from \<^verbatim>\<open>Object.prototype\<close>: built-in functions (\<open>JFun\<close> with the
  function's name) and, for \<^verbatim>\<open>__proto__\<close>, the prototype object itself (\<open>JProto\<close>).
\<close>

datatype jsval = JUndefined | JNaN | JNum nat | JStr string | JFun string | JProto

type_synonym jsobj = "(string \<times> jsval) list"

definition inherited :: "string \<Rightarrow> jsval" where
  "inherited k =
     (if k = ''__proto__'' then JProto
      else if k = ''constructor'' then JFun ''Object''
      else if k \<in> set [''__defineGetter__'', ''__defineSetter__'', ''hasOwnProperty'',
                        ''__lookupGetter__'', ''__lookupSetter__'', ''isPrototypeOf'',
                        ''propertyIsEnumerable'', ''toString'', ''valueOf'', ''toLocaleString'']
      then JFun k
      else JUndefined)"

definition js_get :: "jsobj \<Rightarrow> string \<Rightarrow> jsval" where
  "js_get obj k = (case map_of obj k of Some v \<Rightarrow> v | None \<Rightarrow> inherited k)"

text \<open>
  Assignment \<^verbatim>\<open>o[k] = v\<close> of a number or string: the \<^verbatim>\<open>__proto__\<close> setter ignores a
  primitive; any other key becomes (or stays) an own property.
\<close>

definition js_set :: "jsobj \<Rightarrow> string \<Rightarrow> jsval \<Rightarrow> jsobj" where
  "js_set obj k v = (if k = ''__proto__'' then obj else AList.update k v obj)"

fun truthy :: "jsval \<Rightarrow> bool" where
  "truthy JUndefined = False"
| "truthy JNaN = False"
| "truthy (JNum n) = (n \<noteq> 0)"
| "truthy (JStr s) = (s \<noteq> [])"
| "truthy (JFun f) = True"
| "truthy JProto = True"

text \<open>
  \<^verbatim>\<open>v + 1\<close>: addition on a number; a string, a function or an object is converted to
  a string and \<^verbatim>\<open>1\<close> is appended to it.
\<close>

fun plus_one :: "jsval \<Rightarrow> jsval" where
  "plus_one JUndefined = JNaN"
| "plus_one JNaN = JNaN"
| "plus_one (JNum n) = JNum (n + 1)"
| "plus_one (JStr s) = JStr (s @ ''1'')"
| "plus_one (JFun f) = JStr (''function '' @ f @ ''() { [native code] }1'')"
| "plus_one JProto = JStr ''[object Object]1''"

definition bump :: "jsobj \<Rightarrow> string \<Rightarrow> jsobj" where
  "bump obj k = js_set obj k (plus_one (let v = js_get obj k in if truthy v then v else JNum 0))"

definition tally :: "string list \<Rightarrow> jsobj" where
  "tally ks = foldl bump [] ks"

text \<open>
  \<^verbatim>\<open>Object.keys\<close> lists the own keys that are array indices (canonical decimal numerals
  below \<open>2^32 - 1\<close>) in ascending numeric order, then the other keys in the order of
  their creation; \<^verbatim>\<open>Object.values\<close> follows the same order.
\<close>

definition digit :: "char \<Rightarrow> bool" where
  "digit c = (CHR ''0'' \<le> c \<and> c \<le> CHR ''9'')"

definition index_value :: "string \<Rightarrow> int" where
  "index_value s = foldl (\<lambda>n c. 10 * n + (of_char c - 48)) 0 s"

definition array_index :: "string \<Rightarrow> bool" where
  "array_index s =
     (s \<noteq> [] \<and> list_all digit s \<and> (s = ''0'' \<or> hd s \<noteq> CHR ''0'') \<and> index_value s < 4294967295)"

definition Object_keys :: "jsobj \<Rightarrow> string list" where
  "Object_keys obj =
     sort_key index_value (filter array_index (map fst obj)) @
     filter (\<lambda>k. \<not> array_index k) (map fst obj)"

definition Object_values :: "jsobj \<Rightarrow> jsval list" where
  "Object_values obj = map (js_get obj) (Object_keys obj)"

text \<open>
  The sum of the counts of a distribution, \<^verbatim>\<open>sum(distribution.values())\<close>: a number
  only when every value is one.
\<close>

fun numeric_sum :: "jsval list \<Rightarrow> nat option" where
  "numeric_sum [] = Some 0"
| "numeric_sum (JNum n # vs) = (case numeric_sum vs of None \<Rightarrow> None | Some m \<Rightarrow> Some (n + m))"
| "numeric_sum (v # vs) = None"

section \<open>The dashboard view and refreshStats\<close>

text \<open>
  What the handlers have put on the page: counters, the data given to each chart
  (\<open>None\<close> while no chart was created), the record list, the alerts shown.
\<close>

record view =
  totalRecords :: nat
  uniqueDx :: nat
  diagChart :: "(string list \<times> jsval list) option"
  recordsList :: "(string \<times> string) list"
  featChart :: "(string list \<times> real list) option"
  rocChart :: "(real list \<times> real list \<times> real option) option"
  confMatrixTable :: "(nat list list) option"
  alerts :: "(string \<times> string) list"
  analyticsCard :: bool
  avgRisk :: "real option"
  recordsTimeChart :: "(string list \<times> jsval list) option"
  topDxChart :: "(string list \<times> jsval list) option"

text \<open>The view before any handler has run.\<close>

definition blank_view :: view where
  "blank_view =
     \<lparr>totalRecords = 0, uniqueDx = 0, diagChart = None, recordsList = [], featChart = None,
      rocChart = None, confMatrixTable = None, alerts = [], analyticsCard = False,
      avgRisk = None, recordsTimeChart = None, topDxChart = None\<rparr>"

text \<open>\<^verbatim>\<open>(r.prediction && r.prediction.disease_top) || 'Unknown'\<close>\<close>

definition stats_label :: "diag_record \<Rightarrow> string" where
  "stats_label r =
     (case prediction r of
        None \<Rightarrow> ''Unknown''
      | Some p \<Rightarrow>
          (case disease_top p of
             None \<Rightarrow> ''Unknown''
           | Some s \<Rightarrow> if s = [] then ''Unknown'' else s))"

text \<open>
  One entry of the recent-records list: \<^verbatim>\<open>r.patient_name||'Unknown'\<close> and
  \<^verbatim>\<open>r.prediction ? r.prediction.disease_top : '\<emdash>'\<close> (the dash in UTF-8). The date
  that the source prints after them depends on the locale and is left out.
\<close>

definition record_entry :: "diag_record \<Rightarrow> string \<times> string" where
  "record_entry r =
     (if patient_name r = [] then ''Unknown'' else patient_name r,
      case prediction r of
        None \<Rightarrow> [CHR 0xE2, CHR 0x80, CHR 0x94]
      | Some p \<Rightarrow> js_text (disease_top p))"

text \<open>
  \<^verbatim>\<open>refreshStats()\<close>: the window is the 200 newest records; a query that rejects is
  caught and logged, and the view stays as it was.
\<close>

definition refreshStats :: "firestore \<Rightarrow> view \<Rightarrow> view" where
  "refreshStats st v =
     (if \<not> online st then v
      else
        let docs = take 200 (diagnosis st);
            dist = tally (map stats_label docs);
            labels = Object_keys dist;
            data = Object_values dist
        in v\<lparr>totalRecords := length docs,
              diagChart := Some (labels, data),
              uniqueDx := length labels,
              recordsList := map record_entry (take 30 docs)\<rparr>)"

text \<open>
  \<^verbatim>\<open>loadFeatureImportance()\<close>: \<open>r\<close> is what \<^verbatim>\<open>/feature-importance\<close> yields, a list of
  \<^verbatim>\<open>{feature, importance}\<close>; every failure is caught and logged.
\<close>

definition loadFeatureImportance :: "(string \<times> real) list reply \<Rightarrow> view \<Rightarrow> view" where
  "loadFeatureImportance r v =
     (case r of
        Body d \<Rightarrow> v\<lparr>featChart := Some (map fst d, map snd d)\<rparr>
      | _ \<Rightarrow> v)"

section \<open>The submit handler of predictForm\<close>

record roc_res =
  fpr :: "real list"
  tpr :: "real list"
  auc :: "real option"

text \<open>
  The HTTP collaborators: what each endpoint yields for the request body it is sent.
\<close>

record services =
  predict_disease :: "payload \<Rightarrow> disease_res reply"
  predict_outcome :: "payload \<Rightarrow> outcome_res reply"
  log_metrics :: "payload \<Rightarrow> unit reply"
  feature_importance :: "(string \<times> real) list reply"
  roc_data :: "nat list \<Rightarrow> real list \<Rightarrow> roc_res reply"
  confusion_matrix :: "nat list \<Rightarrow> nat list \<Rightarrow> nat list list reply"

text \<open>
  The first part of the alert: the disease of \<^verbatim>\<open>top3[0]\<close>, or \<^verbatim>\<open>No result\<close> when
  \<^verbatim>\<open>top3\<close> is missing or empty. The percentages that the source prints beside it are
  number formatting and are left out.
\<close>

definition top_text :: "disease_res \<Rightarrow> string" where
  "top_text d =
     (case top3 d of
        None \<Rightarrow> ''No result''
      | Some [] \<Rightarrow> ''No result''
      | Some (t # ts) \<Rightarrow> disease t)"

text \<open>
  \<^verbatim>\<open>db.collection('diagnosis').add(r)\<close> with
  \<^verbatim>\<open>createdAt: serverTimestamp()\<close>: the new document is the newest.
\<close>

definition add_diagnosis :: "firestore \<Rightarrow> diag_record \<Rightarrow> firestore" where
  "add_diagnosis st r =
     st\<lparr>diagnosis := r\<lparr>createdAt := Timestamp (clock st)\<rparr> # diagnosis st,
        clock := Suc (clock st)\<rparr>"

text \<open>
  The submit handler. \<open>user\<close> is \<^verbatim>\<open>firebase.auth().currentUser\<close>. The two prediction
  requests are awaited one after the other; a rejection ends the handler there. The
  alert reads \<^verbatim>\<open>diseaseRes.top3\<close> and \<^verbatim>\<open>outcomeRes.risk\<close>, which throws on a
  \<^verbatim>\<open>null\<close> body. Then the record is added, the metrics log is posted inside
  \<^verbatim>\<open>try\<close>/\<^verbatim>\<open>catch\<close> (its outcome changes nothing here), and the statistics and the
  feature importance are reloaded. The result is the store and the view, with the
  error of the handler's promise if it rejected.
\<close>

definition submit ::
  "(string \<Rightarrow> jsnum) \<Rightarrow> form \<Rightarrow> string option \<Rightarrow> services \<Rightarrow> firestore \<times> view \<Rightarrow>
     (firestore \<times> view) \<times> js_error option" where
  "submit to_Number f user sv s =
     (let (st, v) = s; payload = build_payload to_Number f
      in case predict_disease sv payload of
           Rejected \<Rightarrow> ((st, v), Some NetworkError)
         | NullBody \<Rightarrow>
             (case predict_outcome sv payload of
                Rejected \<Rightarrow> ((st, v), Some NetworkError)
              | _ \<Rightarrow> ((st, v), Some TypeError))
         | Body dRes \<Rightarrow>
             (case predict_outcome sv payload of
                Rejected \<Rightarrow> ((st, v), Some NetworkError)
              | NullBody \<Rightarrow> ((st, v), Some TypeError)
              | Body oRes \<Rightarrow>
                  let v1 = v\<lparr>alerts := alerts v @ [(top_text dRes, js_text (risk oRes))]\<rparr>
                  in if \<not> online st then ((st, v1), Some StoreError)
                     else
                       let st1 = add_diagnosis st
                                   \<lparr>patient_name = PatientName payload,
                                    age = Age payload,
                                    features = Some payload,
                                    prediction = Some \<lparr>disease_top = None,
                                                       diseaseRes = Some dRes,
                                                       outcomeRes = Some oRes\<rparr>,
                                    createdAt = NoTimestamp,
                                    createdBy = user\<rparr>;
                           v2 = refreshStats st1 v1;
                           v3 = loadFeatureImportance (feature_importance sv) v2
                       in ((st1, v3), None)))"

section \<open>generateModelMetricsFromRecords\<close>

text \<open>
  The loop body: a record without \<^verbatim>\<open>features\<close> or \<^verbatim>\<open>prediction\<close> is skipped; one
  whose \<^verbatim>\<open>outcomeRes.probability\<close> is a number gives the label
  (\<^verbatim>\<open>risk === 'High Risk'\<close>), the probability and the prediction at threshold 0.5.
\<close>

definition labeled :: "diag_record \<Rightarrow> (nat \<times> real \<times> nat) option" where
  "labeled r =
     (case features r of
        None \<Rightarrow> None
      | Some f \<Rightarrow>
          (case prediction r of
             None \<Rightarrow> None
           | Some p \<Rightarrow>
               (case outcomeRes p of
                  None \<Rightarrow> None
                | Some out \<Rightarrow>
                    (case probability out of
                       None \<Rightarrow> None
                     | Some prob \<Rightarrow>
                         Some (if risk out = Some ''High Risk'' then 1 else 0,
                               prob,
                               if prob \<ge> 0.5 then 1 else 0)))))"

definition labeled_pairs :: "diag_record list \<Rightarrow> (nat \<times> real \<times> nat) list" where
  "labeled_pairs docs = List.map_filter labeled docs"

datatype metrics_outcome = Skipped | Computed

text \<open>
  \<^verbatim>\<open>generateModelMetricsFromRecords(limit)\<close>. Nothing here is inside \<^verbatim>\<open>try\<close>: a
  query or request that rejects, a \<^verbatim>\<open>null\<close> body, or a matrix with fewer than two
  rows (\<^verbatim>\<open>cm[1][0]\<close>) ends the function with an error. With ten labeled pairs or
  fewer only a warning is logged.
\<close>

definition generateModelMetricsFromRecords ::
  "nat \<Rightarrow> services \<Rightarrow> firestore \<Rightarrow> view \<Rightarrow> view \<times> (js_error + metrics_outcome)" where
  "generateModelMetricsFromRecords limit sv st v =
     (if \<not> online st then (v, Inl StoreError)
      else
        let docs = take limit (diagnosis st);
            pairs = labeled_pairs docs;
            y_true = map fst pairs;
            y_prob = map (fst \<circ> snd) pairs;
            y_pred = map (snd \<circ> snd) pairs
        in if length y_true > 10
           then (case roc_data sv y_true y_prob of
                   Rejected \<Rightarrow> (v, Inl NetworkError)
                 | NullBody \<Rightarrow> (v, Inl TypeError)
                 | Body roc \<Rightarrow>
                     let v1 = v\<lparr>rocChart := Some (fpr roc, tpr roc, auc roc)\<rparr>
                     in (case confusion_matrix sv y_true y_pred of
                           Rejected \<Rightarrow> (v1, Inl NetworkError)
                         | NullBody \<Rightarrow> (v1, Inl TypeError)
                         | Body cm \<Rightarrow>
                             if length cm < 2 then (v1, Inl TypeError)
                             else (v1\<lparr>confMatrixTable := Some cm\<rparr>, Inr Computed)))
           else (v, Inr Skipped))"

section \<open>loadAnalyticsCharts\<close>

text \<open>
  The first operand of the label expression:
  \<^verbatim>\<open>r.prediction && r.prediction.diseaseRes && r.prediction.diseaseRes.top3 &&
  r.prediction.diseaseRes.top3[0] && r.prediction.diseaseRes.top3[0].disease\<close>,
  \<open>None\<close> when it is falsy.
\<close>

definition first_disease :: "diag_record \<Rightarrow> string option" where
  "first_disease r =
     (case prediction r of
        None \<Rightarrow> None
      | Some p \<Rightarrow>
          (case diseaseRes p of
             None \<Rightarrow> None
           | Some d \<Rightarrow>
               (case top3 d of
                  None \<Rightarrow> None
                | Some [] \<Rightarrow> None
                | Some (t # ts) \<Rightarrow> if disease t = [] then None else Some (disease t))))"

text \<open>
  The whole expression: the other two operands,
  \<^verbatim>\<open>(r.prediction && r.prediction.disease_top) || 'Unknown'\<close>, are the label of
  \<^verbatim>\<open>refreshStats\<close>.
\<close>

definition analytics_label :: "diag_record \<Rightarrow> string" where
  "analytics_label r = (case first_disease r of Some s \<Rightarrow> s | None \<Rightarrow> stats_label r)"

text \<open>
  The day of a record:
  \<^verbatim>\<open>ts = r.createdAt && r.createdAt.toDate ? r.createdAt.toDate() : (r.createdAt || new Date())\<close>
  and \<^verbatim>\<open>ts.toISOString().slice(0,10)\<close>. \<open>iso_day\<close> is that conversion of a point in
  time (milliseconds) to its UTC day, \<open>now\<close> is what \<^verbatim>\<open>new Date()\<close> reads. A truthy
  value that is not a Timestamp has no \<^verbatim>\<open>toISOString\<close>: the callback throws.
\<close>

definition record_day :: "(nat \<Rightarrow> string) \<Rightarrow> nat \<Rightarrow> diag_record \<Rightarrow> string" where
  "record_day iso_day now r =
     (case createdAt r of
        Timestamp t \<Rightarrow> iso_day t
      | NoTimestamp \<Rightarrow> iso_day now
      | RawTime \<Rightarrow> [])"

text \<open>\<^verbatim>\<open>r.prediction && r.prediction.outcomeRes && r.prediction.outcomeRes.probability\<close>, when a number.\<close>

definition risk_probability :: "diag_record \<Rightarrow> real option" where
  "risk_probability r =
     (case prediction r of
        None \<Rightarrow> None
      | Some p \<Rightarrow> (case outcomeRes p of None \<Rightarrow> None | Some out \<Rightarrow> probability out))"

text \<open>
  \<^verbatim>\<open>x - y\<close> on two property values, \<open>None\<close> for \<^verbatim>\<open>NaN\<close>: the strings that the
  counters can hold are never numerals.
\<close>

fun js_minus :: "jsval \<Rightarrow> jsval \<Rightarrow> int option" where
  "js_minus (JNum x) (JNum y) = Some (int x - int y)"
| "js_minus x y = None"

text \<open>
  \<^verbatim>\<open>Array.prototype.sort\<close> with a comparator, as a stable insertion sort: \<open>a\<close> stays
  before \<open>b\<close> unless the comparator is positive; \<^verbatim>\<open>NaN\<close> counts as 0. For a
  comparator that is a consistent ordering this is the result that ECMAScript
  prescribes for every engine.
\<close>

definition comes_first :: "('a \<Rightarrow> 'a \<Rightarrow> int option) \<Rightarrow> 'a \<Rightarrow> 'a \<Rightarrow> bool" where
  "comes_first cmp a b = (case cmp a b of None \<Rightarrow> True | Some c \<Rightarrow> c \<le> 0)"

fun js_insort :: "('a \<Rightarrow> 'a \<Rightarrow> int option) \<Rightarrow> 'a \<Rightarrow> 'a list \<Rightarrow> 'a list" where
  "js_insort cmp x [] = [x]"
| "js_insort cmp x (y # ys) = (if comes_first cmp x y then x # y # ys else y # js_insort cmp x ys)"

definition js_sort :: "('a \<Rightarrow> 'a \<Rightarrow> int option) \<Rightarrow> 'a list \<Rightarrow> 'a list" where
  "js_sort cmp xs = foldr (js_insort cmp) xs []"

text \<open>
  \<^verbatim>\<open>Object.keys(dxCount).sort((a,b) => dxCount[b]-dxCount[a]).slice(0,8)\<close>
\<close>

definition top_diagnoses :: "jsobj \<Rightarrow> string list" where
  "top_diagnoses dxCount =
     take 8 (js_sort (\<lambda>a b. js_minus (js_get dxCount b) (js_get dxCount a)) (Object_keys dxCount))"

text \<open>
  \<^verbatim>\<open>loadAnalyticsCharts()\<close>: the window is the 1000 newest records. The query is not
  inside \<^verbatim>\<open>try\<close>, so a rejection (or the \<^verbatim>\<open>TypeError\<close> of a record whose
  \<^verbatim>\<open>createdAt\<close> is not a Timestamp) ends the function before anything is drawn. The
  average risk is the exact quotient; the rounding of doubles is not modelled.
\<close>

definition loadAnalyticsCharts ::
  "(nat \<Rightarrow> string) \<Rightarrow> nat \<Rightarrow> firestore \<Rightarrow> view \<Rightarrow> view \<times> js_error option" where
  "loadAnalyticsCharts iso_day now st v =
     (if \<not> online st then (v, Some StoreError)
      else
        let docs = take 1000 (diagnosis st)
        in if list_ex (\<lambda>r. createdAt r = RawTime) docs then (v, Some TypeError)
           else
             let countsByDay = tally (map (record_day iso_day now) docs);
                 days = sort (Object_keys countsByDay);
                 counts = map (js_get countsByDay) days;
                 dxCount = tally (map analytics_label docs);
                 dxLabels = top_diagnoses dxCount;
                 dxValues = map (js_get dxCount) dxLabels;
                 probs = List.map_filter risk_probability docs;
                 avg = (if probs = [] then None else Some (sum_list probs / real (length probs)))
             in (v\<lparr>avgRisk := avg,
                   recordsTimeChart := Some (days, counts),
                   topDxChart := Some (dxLabels, dxValues)\<rparr>, None))"

section \<open>The role gate and the auth-state listeners\<close>

text \<open>
  The \<^verbatim>\<open>try\<close> block of \<^verbatim>\<open>showAnalyticsIfAdmin\<close>: \<^verbatim>\<open>role\<close> starts as \<^verbatim>\<open>null\<close> and is
  set only when the lookup resolves with an existing document; a rejection is caught
  and logged.
\<close>

definition lookup_role :: "firestore \<Rightarrow> string \<Rightarrow> string option" where
  "lookup_role st u =
     (if \<not> online st then None
      else case users st u of
             LookupRejected \<Rightarrow> None
           | NotFound \<Rightarrow> None
           | Found p \<Rightarrow> role p)"

text \<open>
  The functions of the source that a listener calls, recorded in the order of the
  calls; \<open>Navigate_login\<close> is \<^verbatim>\<open>window.location.href = 'login.html'\<close>.
\<close>

datatype call =
    Navigate_login
  | Call_refreshStats
  | Call_loadFeatureImportance
  | Call_generateModelMetricsFromRecords nat
  | Call_showAnalyticsIfAdmin
  | Call_loadAnalyticsCharts

text \<open>
  \<^verbatim>\<open>showAnalyticsIfAdmin()\<close>: \<open>user\<close> is \<^verbatim>\<open>firebase.auth().currentUser\<close>. The card is
  shown and \<^verbatim>\<open>loadAnalyticsCharts\<close>, with its window of 1000 records, is called only
  when the role is exactly \<^verbatim>\<open>admin\<close>. The result is the view and the calls made.
\<close>

definition showAnalyticsIfAdmin ::
  "(nat \<Rightarrow> string) \<Rightarrow> nat \<Rightarrow> string option \<Rightarrow> firestore \<Rightarrow> view \<Rightarrow> view \<times> call list" where
  "showAnalyticsIfAdmin iso_day now user st v =
     (case user of
        None \<Rightarrow> (v, [])
      | Some u \<Rightarrow>
          if lookup_role st u = Some ''admin''
          then (fst (loadAnalyticsCharts iso_day now st (v\<lparr>analyticsCard := True\<rparr>)),
                [Call_loadAnalyticsCharts])
          else (v\<lparr>analyticsCard := False\<rparr>, []))"

text \<open>
  The three callbacks given to \<^verbatim>\<open>onAuthStateChanged\<close>: the one registered in the
  \<^verbatim>\<open>load\<close> handler (INIT), the one registered when the script is evaluated (admin
  check on load) and the one that every tick of the interval timer registers.
\<close>

datatype listener = InitListener | AdminListener | TickListener

text \<open>
  A callback run with the user it is given (\<open>None\<close> for \<^verbatim>\<open>null\<close>). INIT sends a
  signed-out visitor to the login page and, for any signed-in user, reloads the
  statistics and the feature importance and then calls
  \<^verbatim>\<open>generateModelMetricsFromRecords()\<close> with its default limit 200; the user name it
  shows is left out. The other two call \<^verbatim>\<open>showAnalyticsIfAdmin\<close> for a signed-in
  user. The promise of a callback is dropped by the caller, so an error ends the
  callback and nothing more.
\<close>

definition run_listener ::
  "services \<Rightarrow> (nat \<Rightarrow> string) \<Rightarrow> nat \<Rightarrow> firestore \<Rightarrow> listener \<Rightarrow> string option \<Rightarrow> view \<Rightarrow>
     view \<times> call list" where
  "run_listener sv iso_day now st l user v =
     (case l of
        InitListener \<Rightarrow>
          (case user of
             None \<Rightarrow> (v, [Navigate_login])
           | Some u \<Rightarrow>
               (fst (generateModelMetricsFromRecords 200 sv st
                       (loadFeatureImportance (feature_importance sv) (refreshStats st v))),
                [Call_refreshStats, Call_loadFeatureImportance,
                 Call_generateModelMetricsFromRecords 200]))
      | AdminListener \<Rightarrow>
          (case user of
             None \<Rightarrow> (v, [])
           | Some u \<Rightarrow>
               (fst (showAnalyticsIfAdmin iso_day now user st v),
                Call_showAnalyticsIfAdmin # snd (showAnalyticsIfAdmin iso_day now user st v)))
      | TickListener \<Rightarrow>
          (case user of
             None \<Rightarrow> (v, [])
           | Some u \<Rightarrow>
               (fst (showAnalyticsIfAdmin iso_day now user st v),
                Call_showAnalyticsIfAdmin # snd (showAnalyticsIfAdmin iso_day now user st v))))"

section \<open>The page: timers and listeners over time\<close>

text \<open>
  Firebase's auth state: not yet known while the SDK initialises, then the current
  user or \<^verbatim>\<open>null\<close>. An observer given to \<^verbatim>\<open>onAuthStateChanged\<close> is called on every
  change of the state and, when the state is already known at registration, once
  with the current state.
\<close>

datatype auth_state = Unresolved | Resolved "string option"

record page =
  auth :: auth_state
  timers :: nat
  listeners :: "listener list"
  navigated :: bool
  page_view :: view
  calls :: "call list"

datatype event = WindowLoad | TimerTick | AuthStateChanged "string option"

text \<open>
  The page once the script has been evaluated: the admin-check listener is registered
  (line 525) and \<^verbatim>\<open>setInterval\<close> has created the one timer (line 531).
\<close>

definition start_page :: page where
  "start_page =
     \<lparr>auth = Unresolved, timers = 1, listeners = [AdminListener], navigated = False,
      page_view = blank_view, calls = []\<rparr>"

definition invoke ::
  "services \<Rightarrow> (nat \<Rightarrow> string) \<Rightarrow> nat \<Rightarrow> firestore \<Rightarrow> string option \<Rightarrow> page \<Rightarrow> listener \<Rightarrow> page" where
  "invoke sv iso_day now st user p l =
     (let r = run_listener sv iso_day now st l user (page_view p)
      in p\<lparr>page_view := fst r,
            calls := calls p @ snd r,
            navigated := (navigated p \<or> Navigate_login \<in> set (snd r))\<rparr>)"

text \<open>\<^verbatim>\<open>firebase.auth().onAuthStateChanged(l)\<close>: nothing is ever unsubscribed.\<close>

definition register ::
  "services \<Rightarrow> (nat \<Rightarrow> string) \<Rightarrow> nat \<Rightarrow> firestore \<Rightarrow> listener \<Rightarrow> page \<Rightarrow> page" where
  "register sv iso_day now st l p =
     (let p' = p\<lparr>listeners := listeners p @ [l]\<rparr>
      in case auth p of
           Unresolved \<Rightarrow> p'
         | Resolved user \<Rightarrow> invoke sv iso_day now st user p' l)"

text \<open>
  One event at time \<open>now\<close>. The \<^verbatim>\<open>load\<close> handler registers INIT; a tick of the timer
  runs \<^verbatim>\<open>firebase.auth().onAuthStateChanged(user => { if (user) showAnalyticsIfAdmin(); })\<close>,
  which registers one more listener; a change of the auth state calls every registered
  listener. Once the page has been sent to the login page it is gone.
\<close>

definition step ::
  "services \<Rightarrow> (nat \<Rightarrow> string) \<Rightarrow> firestore \<Rightarrow> page \<Rightarrow> nat \<times> event \<Rightarrow> page" where
  "step sv iso_day st p te =
     (if navigated p then p
      else case snd te of
             WindowLoad \<Rightarrow> register sv iso_day (fst te) st InitListener p
           | TimerTick \<Rightarrow> register sv iso_day (fst te) st TickListener p
           | AuthStateChanged user \<Rightarrow>
               foldl (invoke sv iso_day (fst te) st user) (p\<lparr>auth := Resolved user\<rparr>) (listeners p))"

definition run ::
  "services \<Rightarrow> (nat \<Rightarrow> string) \<Rightarrow> firestore \<Rightarrow> (nat \<times> event) list \<Rightarrow> page \<Rightarrow> page" where
  "run sv iso_day st evs p = foldl (step sv iso_day st) p evs"

text \<open>The listener that an event registers, if any.\<close>

fun registered :: "nat \<times> event \<Rightarrow> listener list" where
  "registered (t, WindowLoad) = [InitListener]"
| "registered (t, TimerTick) = [TickListener]"
| "registered (t, AuthStateChanged user) = []"

text \<open>A store with no documents, used for concrete runs.\<close>

definition empty_store :: firestore where
  "empty_store =
     \<lparr>diagnosis = [], chat_history = [], users = (\<lambda>u. NotFound), clock = 0, online = True\<rparr>"

text \<open>The form with nothing entered.\<close>

definition blank_form :: form where
  "blank_form =
     \<lparr>el_pname = [], el_age = [], el_gender = [], el_fever = False, el_cough = False,
      el_fatigue = False, el_dbreath = False, el_temp = [], el_hr = [], el_rr = [],
      el_spo2 = [], el_bp_cat = [], el_chol = []\<rparr>"

text \<open>
  \<^verbatim>\<open>Number\<close> on the strings used in the concrete runs below: a string of decimal
  digits is its value; everything else that occurs there is not a number.
\<close>

definition digits_Number :: "string \<Rightarrow> jsnum" where
  "digits_Number s = (if s \<noteq> [] \<and> list_all digit s then Num (real_of_int (index_value s)) else NaN)"

text \<open>
  Services for the concrete runs: \<open>flu_services\<close> answers as in the end-to-end
  scenario of the specification; \<open>failing_services\<close> answers the disease request
  with an error body, as the server does when the model cannot predict.
\<close>

definition flu_services :: services where
  "flu_services =
     \<lparr>predict_disease = (\<lambda>p. Body \<lparr>top3 = Some [\<lparr>disease = ''Flu'', confidence = 0.8\<rparr>],
                                      d_error = None\<rparr>),
      predict_outcome = (\<lambda>p. Body \<lparr>risk = Some ''HighRisk'', probability = Some 0.7,
                                      o_error = None\<rparr>),
      log_metrics = (\<lambda>p. Body ()),
      feature_importance = Body [],
      roc_data = (\<lambda>t p. Body \<lparr>fpr = [0, 1], tpr = [0, 1], auc = Some 0.5\<rparr>),
      confusion_matrix = (\<lambda>t p. Body [[0, 0], [0, 0]])\<rparr>"

definition failing_services :: services where
  "failing_services =
     flu_services\<lparr>predict_disease :=
       (\<lambda>p. Body \<lparr>top3 = None, d_error = Some ''model not loaded''\<rparr>)\<rparr>"

definition flu_form :: form where
  "flu_form = blank_form\<lparr>el_age := ''45'', el_fever := True\<rparr>"

text \<open>A stored record that yields a labeled pair, and a store holding \<open>n\<close> of them.\<close>

definition labeled_record :: diag_record where
  "labeled_record =
     \<lparr>patient_name = ''A'', age = Num 45,
      features = Some (build_payload digits_Number flu_form),
      prediction = Some \<lparr>disease_top = None, diseaseRes = None,
                         outcomeRes = Some \<lparr>risk = Some ''High Risk'', probability = Some 0.7,
                                            o_error = None\<rparr>\<rparr>,
      createdAt = Timestamp 0, createdBy = None\<rparr>"

definition store_of :: "nat \<Rightarrow> firestore" where
  "store_of n = empty_store\<lparr>diagnosis := replicate n labeled_record\<rparr>"

text \<open>A store whose only record carries the label \<^verbatim>\<open>toString\<close>.\<close>

definition toString_store :: firestore where
  "toString_store =
     empty_store\<lparr>diagnosis :=
       [labeled_record\<lparr>prediction :=
          Some \<lparr>disease_top = Some ''toString'', diseaseRes = None, outcomeRes = None\<rparr>\<rparr>]\<rparr>"

text \<open>
  Fixtures for the analytics: \<^verbatim>\<open>toISOString().slice(0,10)\<close> on the first two days of
  the epoch; a record as the submit handler stores it, with a given top disease; a
  window of two such records; and a window whose only record has no timestamp yet.
\<close>

definition epoch_iso_day :: "nat \<Rightarrow> string" where
  "epoch_iso_day ms = (if ms < 86400000 then ''1970-01-01'' else ''1970-01-02'')"

definition diagnosed :: "string \<Rightarrow> nat \<Rightarrow> diag_record" where
  "diagnosed d t =
     \<lparr>patient_name = ''A'', age = Num 45,
      features = Some (build_payload digits_Number flu_form),
      prediction = Some \<lparr>disease_top = None,
                         diseaseRes = Some \<lparr>top3 = Some [\<lparr>disease = d, confidence = 0.8\<rparr>],
                                            d_error = None\<rparr>,
                         outcomeRes = Some \<lparr>risk = Some ''HighRisk'', probability = Some 0.7,
                                            o_error = None\<rparr>\<rparr>,
      createdAt = Timestamp t, createdBy = None\<rparr>"

definition two_label_store :: firestore where
  "two_label_store = empty_store\<lparr>diagnosis := [diagnosed ''Flu'' 1, diagnosed ''Asthma'' 0]\<rparr>"

definition pending_store :: firestore where
  "pending_store = empty_store\<lparr>diagnosis := [(diagnosed ''Flu'' 0)\<lparr>createdAt := NoTimestamp\<rparr>]\<rparr>"

text \<open>
  A store with two profiles, a doctor and an admin, and a session: the page loads,
  the user signs in, the timer ticks twice (every 5 minutes).
\<close>

definition staff_store :: firestore where
  "staff_store =
     empty_store\<lparr>users :=
       (\<lambda>u. if u = ''d1'' then Found \<lparr>email = ''d1@example.org'', displayName = ''D'',
                                        role = Some ''doctor''\<rparr>
            else if u = ''a1'' then Found \<lparr>email = ''a1@example.org'', displayName = ''A'',
                                             role = Some ''admin''\<rparr>
            else NotFound)\<rparr>"

definition session :: "string \<Rightarrow> (nat \<times> event) list" where
  "session u = [(0, WindowLoad), (0, AuthStateChanged (Some u)), (300000, TimerTick), (600000, TimerTick)]"

section \<open>Theorems\<close>

subsection \<open>Chat persistence without a signed-in user\<close>

text \<open>
  Were \<^verbatim>\<open>auth\<close> bound, the guard \<^verbatim>\<open>if (!user) return\<close> would end \<^verbatim>\<open>saveChat\<close>
  without a write and without an error when nobody is signed in. Unbound, the read
  of \<^verbatim>\<open>auth\<close> throws before the guard, for every caller.
\<close>

lemma saveChat_signed_out: "saveChat (Bound None) sndr text st = (st, None)"
  by (simp add: saveChat_def)

lemma saveChat_unbound: "saveChat Unbound sndr text st = (st, Some ReferenceError)"
  by (simp add: saveChat_def)

lemma trim_fever: "trim (units '' fever? '') = units ''fever?''"
  by (simp add: trim_def js_space_def units_def)

text \<open>
  C10 at the failing input: nobody is signed in and the message \<^verbatim>\<open>fever?\<close> is sent.
  The message appears in the chat box and nothing is written to \<^verbatim>\<open>chat_history\<close>, as
  the claim says, but \<^verbatim>\<open>saveChat\<close> does not return normally: \<^verbatim>\<open>auth\<close> is not bound
  in dashboard.js, so the promise of \<^verbatim>\<open>saveChat\<close> rejects with a
  \<^verbatim>\<open>ReferenceError\<close> before the guard is reached.
\<close>

theorem saveChat_rejects_reference_error:
  "dashboard_auth = Unbound \<and>
   saveChat dashboard_auth ''You'' (Some (units ''fever?'')) empty_store =
     (empty_store, Some ReferenceError) \<and>
   fst (fst (sendMessage dashboard_auth (Body \<lparr>reply = Some (units ''rest'')\<rparr>)
     (empty_store, \<lparr>chatInput = units '' fever? '', chat_box = [], spoken = []\<rparr>))) =
     empty_store \<and>
   chat_box (snd (fst (sendMessage dashboard_auth (Body \<lparr>reply = Some (units ''rest'')\<rparr>)
     (empty_store, \<lparr>chatInput = units '' fever? '', chat_box = [], spoken = []\<rparr>)))) =
     [(''You'', units ''fever?''), (''AI'', units ''rest'')]"
proof -
  have n: "units ''fever?'' \<noteq> []"
    by (simp add: units_def)
  show ?thesis
    by (simp add: dashboard_auth_def saveChat_unbound sendMessage_def trim_fever n
        appendMessage_def chat_text_def Let_def)
qed

subsection \<open>Defaults of the submitted payload\<close>

text \<open>
  C8 (as amended). In the payload built by the submit handler an empty \<^verbatim>\<open>age\<close>,
  \<^verbatim>\<open>temp\<close>, \<^verbatim>\<open>hr\<close> or \<^verbatim>\<open>rr\<close> input gives 0, an empty \<^verbatim>\<open>spo2\<close> input gives
  100, the three categorical fields (\<^verbatim>\<open>Gender\<close>, \<^verbatim>\<open>BloodPressure\<close>,
  \<^verbatim>\<open>Cholesterol\<close>) are the values of their selects with no default applied, and each
  symptom flag is \<^verbatim>\<open>Yes\<close> when its box is checked and \<^verbatim>\<open>No\<close> otherwise.
\<close>

theorem payload_defaults:
  "(el_age f = [] \<longrightarrow> Age (build_payload to_Number f) = Num 0) \<and>
   (el_temp f = [] \<longrightarrow> temp (build_payload to_Number f) = Num 0) \<and>
   (el_hr f = [] \<longrightarrow> hr (build_payload to_Number f) = Num 0) \<and>
   (el_rr f = [] \<longrightarrow> rr (build_payload to_Number f) = Num 0) \<and>
   (el_spo2 f = [] \<longrightarrow> spo2 (build_payload to_Number f) = Num 100) \<and>
   Gender (build_payload to_Number f) = el_gender f \<and>
   BloodPressure (build_payload to_Number f) = el_bp_cat f \<and>
   Cholesterol (build_payload to_Number f) = el_chol f \<and>
   Fever (build_payload to_Number f) = (if el_fever f then ''Yes'' else ''No'') \<and>
   Cough (build_payload to_Number f) = (if el_cough f then ''Yes'' else ''No'') \<and>
   Fatigue (build_payload to_Number f) = (if el_fatigue f then ''Yes'' else ''No'') \<and>
   DifficultyBreathing (build_payload to_Number f) = (if el_dbreath f then ''Yes'' else ''No'')"
  by (simp add: build_payload_def number_or_def yes_no_def)

theorem payload_defaults_witness:
  "el_age blank_form = [] \<and> el_temp blank_form = [] \<and> el_hr blank_form = [] \<and>
   el_rr blank_form = [] \<and> el_spo2 blank_form = [] \<and>
   Age (build_payload digits_Number blank_form) = Num 0 \<and>
   temp (build_payload digits_Number blank_form) = Num 0 \<and>
   hr (build_payload digits_Number blank_form) = Num 0 \<and>
   rr (build_payload digits_Number blank_form) = Num 0 \<and>
   spo2 (build_payload digits_Number blank_form) = Num 100 \<and>
   Fever (build_payload digits_Number blank_form) = ''No''"
  using payload_defaults [of blank_form digits_Number]
  by (simp add: blank_form_def)

text \<open>
  The claim as stated fails on the form with nothing entered: \<^verbatim>\<open>spo2\<close> is a numeric
  field and its default is not 0, and \<^verbatim>\<open>Gender\<close> stays empty instead of taking a
  baseline category.
\<close>

theorem payload_spo2_default_counterexample:
  "el_spo2 blank_form = [] \<and> el_gender blank_form = [] \<and>
   spo2 (build_payload digits_Number blank_form) \<noteq> Num 0 \<and>
   Gender (build_payload digits_Number blank_form) = []"
  by (simp add: build_payload_def number_or_def blank_form_def)

subsection \<open>The threshold of the model metrics\<close>

lemma labeled_labeled_record: "labeled labeled_record = Some (1, 0.7, 1)"
  by (simp add: labeled_def labeled_record_def)

lemma map_filter_replicate:
  "List.map_filter g (replicate n x) = (case g x of None \<Rightarrow> [] | Some y \<Rightarrow> replicate n y)"
  by (induction n) (simp_all add: map_filter_simps split: option.splits)

lemma labeled_pairs_store_of:
  "labeled_pairs (take limit (diagnosis (store_of n))) = replicate (min limit n) (1, 0.7, 1)"
  by (simp add: store_of_def labeled_pairs_def map_filter_replicate labeled_labeled_record
      min.commute)

text \<open>
  C4. \<^verbatim>\<open>generateModelMetricsFromRecords\<close> needs strictly more than 10 labeled pairs
  from its window. With 10 or fewer it returns normally as \<open>Skipped\<close> and the view,
  hence the ROC chart and the confusion matrix, is left as it was; with more than 10
  it is not skipped, and when both requests answer it sets both.
\<close>

theorem metrics_need_more_than_ten:
  assumes "online st"
  shows "(length (labeled_pairs (take limit (diagnosis st))) \<le> 10 \<longrightarrow>
            generateModelMetricsFromRecords limit sv st v = (v, Inr Skipped)) \<and>
         (10 < length (labeled_pairs (take limit (diagnosis st))) \<longrightarrow>
            snd (generateModelMetricsFromRecords limit sv st v) \<noteq> Inr Skipped \<and>
            (\<forall>roc cm.
               roc_data sv (map fst (labeled_pairs (take limit (diagnosis st))))
                 (map (fst \<circ> snd) (labeled_pairs (take limit (diagnosis st)))) = Body roc \<and>
               confusion_matrix sv (map fst (labeled_pairs (take limit (diagnosis st))))
                 (map (snd \<circ> snd) (labeled_pairs (take limit (diagnosis st)))) = Body cm \<and>
               2 \<le> length cm \<longrightarrow>
               generateModelMetricsFromRecords limit sv st v =
                 (v\<lparr>rocChart := Some (fpr roc, tpr roc, auc roc), confMatrixTable := Some cm\<rparr>,
                  Inr Computed)))"
  using assms
  by (auto simp add: generateModelMetricsFromRecords_def Let_def split: reply.splits)

theorem metrics_need_more_than_ten_witness:
  "online (store_of 10) \<and> online (store_of 11) \<and>
   length (labeled_pairs (take 200 (diagnosis (store_of 10)))) \<le> 10 \<and>
   10 < length (labeled_pairs (take 200 (diagnosis (store_of 11)))) \<and>
   generateModelMetricsFromRecords 200 flu_services (store_of 10) blank_view =
     (blank_view, Inr Skipped) \<and>
   generateModelMetricsFromRecords 200 flu_services (store_of 11) blank_view =
     (blank_view\<lparr>rocChart := Some ([0, 1], [0, 1], Some 0.5),
                  confMatrixTable := Some [[0, 0], [0, 0]]\<rparr>, Inr Computed)"
proof -
  have o: "online (store_of 10)" "online (store_of 11)"
    by (simp_all add: store_of_def empty_store_def)
  have l: "length (labeled_pairs (take 200 (diagnosis (store_of 10)))) = 10"
          "length (labeled_pairs (take 200 (diagnosis (store_of 11)))) = 11"
    by (simp_all add: labeled_pairs_store_of)
  show ?thesis
    using metrics_need_more_than_ten [OF o(1), of 200 flu_services blank_view]
          metrics_need_more_than_ten [OF o(2), of 200 flu_services blank_view]
    by (simp add: o l flu_services_def)
qed

subsection \<open>Submission when a prediction request fails\<close>

text \<open>
  When a prediction request rejects, or its body is \<^verbatim>\<open>null\<close>, the handler ends with
  an error before the \<^verbatim>\<open>add\<close>: store and view are unchanged.
\<close>

lemma submit_rejected_writes_nothing:
  assumes "predict_disease sv (build_payload to_Number f) \<in> {Rejected, NullBody} \<or>
           predict_outcome sv (build_payload to_Number f) \<in> {Rejected, NullBody}"
  shows "fst (submit to_Number f user sv (st, v)) = (st, v) \<and>
         snd (submit to_Number f user sv (st, v)) \<noteq> None"
  using assms by (auto simp add: submit_def Let_def split: reply.splits)

text \<open>
  C1 at the failing input. The disease request is answered by an error body
  (\<^verbatim>\<open>{error: "model not loaded"}\<close>); \<^verbatim>\<open>postJSON\<close> resolves with it, the handler
  completes without error, and a record whose \<^verbatim>\<open>diseaseRes\<close> is that error body is
  written to \<^verbatim>\<open>diagnosis\<close>.
\<close>

theorem submit_persists_failed_prediction:
  "predict_disease failing_services (build_payload digits_Number flu_form) =
     Body \<lparr>top3 = None, d_error = Some ''model not loaded''\<rparr> \<and>
   snd (submit digits_Number flu_form (Some ''u1'') failing_services (empty_store, blank_view)) = None \<and>
   map prediction
     (diagnosis (fst (fst (submit digits_Number flu_form (Some ''u1'') failing_services
        (empty_store, blank_view))))) =
     [Some \<lparr>disease_top = None,
            diseaseRes = Some \<lparr>top3 = None, d_error = Some ''model not loaded''\<rparr>,
            outcomeRes = Some \<lparr>risk = Some ''HighRisk'', probability = Some 0.7,
                               o_error = None\<rparr>\<rparr>]"
  by (simp add: submit_def failing_services_def flu_services_def empty_store_def Let_def
      add_diagnosis_def)

subsection \<open>End to end: submit, then refresh\<close>

lemma tally_Unknown: "tally [''Unknown''] = [(''Unknown'', JNum 1)]"
  by (simp add: tally_def bump_def js_get_def js_set_def inherited_def)

lemma array_index_Unknown: "\<not> array_index ''Unknown''"
  by (simp add: array_index_def digit_def)

text \<open>
  C3 at the scenario of the claim (age 45, fever checked, the service answers
  \<^verbatim>\<open>Flu\<close> with confidence 0.8 and \<^verbatim>\<open>HighRisk\<close> with probability 0.7, empty store).
  The record is stored with \<^verbatim>\<open>prediction.outcomeRes.risk\<close> equal to \<^verbatim>\<open>HighRisk\<close>, but
  the refresh that follows reads \<^verbatim>\<open>prediction.disease_top\<close>, which the handler never
  writes: the record is counted under \<^verbatim>\<open>Unknown\<close> and the distribution has no entry
  for \<^verbatim>\<open>Flu\<close>.
\<close>

theorem end_to_end_flu_counted_as_unknown:
  "snd (submit digits_Number flu_form (Some ''u1'') flu_services (empty_store, blank_view)) = None \<and>
   map prediction
     (diagnosis (fst (fst (submit digits_Number flu_form (Some ''u1'') flu_services
        (empty_store, blank_view))))) =
     [Some \<lparr>disease_top = None,
            diseaseRes = Some \<lparr>top3 = Some [\<lparr>disease = ''Flu'', confidence = 0.8\<rparr>],
                               d_error = None\<rparr>,
            outcomeRes = Some \<lparr>risk = Some ''HighRisk'', probability = Some 0.7,
                               o_error = None\<rparr>\<rparr>] \<and>
   diagChart (snd (fst (submit digits_Number flu_form (Some ''u1'') flu_services
        (empty_store, blank_view)))) = Some ([''Unknown''], [JNum 1]) \<and>
   js_get (tally (map stats_label (take 200
     (diagnosis (fst (fst (submit digits_Number flu_form (Some ''u1'') flu_services
        (empty_store, blank_view)))))))) ''Flu'' = JUndefined"
  by (simp add: submit_def flu_services_def empty_store_def Let_def add_diagnosis_def
      refreshStats_def loadFeatureImportance_def stats_label_def tally_Unknown
      Object_keys_def Object_values_def array_index_Unknown js_get_def inherited_def)

subsection \<open>Counting with a plain object\<close>

text \<open>
  For labels that name no member of \<^verbatim>\<open>Object.prototype\<close> the counter object behaves
  like a dictionary: its keys are the labels seen, each with the number of its
  occurrences.
\<close>

lemma inherited_proto: "inherited k = JUndefined \<Longrightarrow> k \<noteq> ''__proto__''"
  by (auto simp add: inherited_def)

lemma bump_keys_distinct: "distinct (map fst obj) \<Longrightarrow> distinct (map fst (bump obj k))"
  by (simp add: bump_def js_set_def distinct_update)

lemma foldl_bump_distinct:
  "distinct (map fst obj) \<Longrightarrow> distinct (map fst (foldl bump obj ks))"
  by (induction ks arbitrary: obj) (simp_all add: bump_keys_distinct)

lemma tally_distinct: "distinct (map fst (tally ks))"
  by (simp add: tally_def foldl_bump_distinct)

lemma bump_counts:
  assumes plain: "inherited k = JUndefined"
    and inv: "\<And>x. map_of obj x = (if x \<in> set ps then Some (JNum (count_list ps x)) else None)"
  shows "map_of (bump obj k) x =
           (if x \<in> set (ps @ [k]) then Some (JNum (count_list (ps @ [k]) x)) else None)"
proof -
  have k: "k \<noteq> ''__proto__''" using plain by (rule inherited_proto)
  have v: "plus_one (let v = js_get obj k in if truthy v then v else JNum 0) =
             JNum (count_list ps k + 1)"
  proof (cases "k \<in> set ps")
    case True
    then have "count_list ps k \<noteq> 0" by (simp add: count_list_0_iff)
    with True show ?thesis by (simp add: js_get_def inv)
  next
    case False
    then have "count_list ps k = 0" by (simp add: count_list_0_iff)
    with False show ?thesis by (simp add: js_get_def inv plain)
  qed
  show ?thesis
    using k by (simp add: bump_def js_set_def v update_conv' inv)
qed

lemma foldl_bump_counts:
  assumes "\<forall>k\<in>set ks. inherited k = JUndefined"
    and "\<And>x. map_of obj x = (if x \<in> set ps then Some (JNum (count_list ps x)) else None)"
  shows "map_of (foldl bump obj ks) x =
           (if x \<in> set (ps @ ks) then Some (JNum (count_list (ps @ ks) x)) else None)"
  using assms
proof (induction ks arbitrary: obj ps)
  case Nil
  then show ?case by simp
next
  case (Cons k ks)
  have "map_of (foldl bump (bump obj k) ks) x =
          (if x \<in> set ((ps @ [k]) @ ks) then Some (JNum (count_list ((ps @ [k]) @ ks) x)) else None)"
  proof (rule Cons.IH)
    show "\<forall>k\<in>set ks. inherited k = JUndefined" using Cons.prems(1) by simp
    show "\<And>x. map_of (bump obj k) x =
            (if x \<in> set (ps @ [k]) then Some (JNum (count_list (ps @ [k]) x)) else None)"
      using Cons.prems by (intro bump_counts) simp_all
  qed
  then show ?case by simp
qed

lemma tally_counts:
  assumes "\<forall>k\<in>set ks. inherited k = JUndefined"
  shows "map_of (tally ks) x = (if x \<in> set ks then Some (JNum (count_list ks x)) else None)"
  using foldl_bump_counts [OF assms, of "[]" "[]" x] by (simp add: tally_def)

lemma tally_keys:
  assumes "\<forall>k\<in>set ks. inherited k = JUndefined"
  shows "set (map fst (tally ks)) = set ks"
proof -
  have "dom (map_of (tally ks)) = set ks"
    using tally_counts [OF assms] by (auto simp add: dom_def split: if_splits)
  then show ?thesis by (simp add: dom_map_of_conv_image_fst)
qed

lemma js_get_tally:
  assumes "\<forall>k\<in>set ks. inherited k = JUndefined" and "x \<in> set ks"
  shows "js_get (tally ks) x = JNum (count_list ks x)"
  using assms by (simp add: js_get_def tally_counts)

lemma Object_keys_set: "set (Object_keys obj) = fst ` set obj"
  by (auto simp add: Object_keys_def)

lemma Object_keys_distinct: "distinct (map fst obj) \<Longrightarrow> distinct (Object_keys obj)"
  by (auto simp add: Object_keys_def)

lemma numeric_sum_counts: "numeric_sum (map (\<lambda>x. JNum (f x)) xs) = Some (sum_list (map f xs))"
  by (induction xs) simp_all

lemma Object_values_tally:
  assumes "\<forall>k\<in>set ks. inherited k = JUndefined"
  shows "Object_values (tally ks) = map (\<lambda>x. JNum (count_list ks x)) (Object_keys (tally ks))"
proof -
  have "set (Object_keys (tally ks)) = set ks"
    using tally_keys [OF assms] by (simp add: Object_keys_set)
  then show ?thesis
    unfolding Object_values_def
    by (intro map_cong refl js_get_tally [OF assms]) simp
qed

lemma tally_total:
  assumes "\<forall>k\<in>set ks. inherited k = JUndefined"
  shows "numeric_sum (Object_values (tally ks)) = Some (length ks)"
proof -
  let ?keys = "Object_keys (tally ks)"
  have s: "set ?keys = set ks"
    using tally_keys [OF assms] by (simp add: Object_keys_set)
  have d: "distinct ?keys"
    by (rule Object_keys_distinct) (rule tally_distinct)
  have "sum_list (map (count_list ks) ?keys) = sum (count_list ks) (set ?keys)"
    using d by (rule sum_list_distinct_conv_sum_set)
  also have "\<dots> = length ks"
    unfolding s by (rule sum_count_set) simp_all
  finally show ?thesis
    by (simp add: Object_values_tally [OF assms] numeric_sum_counts)
qed

text \<open>
  For such windows the counts of the distribution of \<^verbatim>\<open>refreshStats\<close> add up to the
  number of records in the window.
\<close>

lemma distribution_sum:
  assumes "online st"
    and "\<forall>r\<in>set (take 200 (diagnosis st)). inherited (stats_label r) = JUndefined"
  shows "diagChart (refreshStats st v) =
           Some (Object_keys (tally (map stats_label (take 200 (diagnosis st)))),
                 Object_values (tally (map stats_label (take 200 (diagnosis st))))) \<and>
         numeric_sum (Object_values (tally (map stats_label (take 200 (diagnosis st))))) =
           Some (length (take 200 (diagnosis st)))"
proof -
  have "\<forall>k\<in>set (map stats_label (take 200 (diagnosis st))). inherited k = JUndefined"
    using assms(2) by simp
  from tally_total [OF this] show ?thesis
    using assms(1) by (simp add: refreshStats_def Let_def)
qed

lemma tally_toString: "tally [''toString''] = [(''toString'', JStr ''function toString() { [native code] }1'')]"
  by (simp add: tally_def bump_def js_get_def js_set_def inherited_def)

text \<open>
  C5 at the failing input: a window of one record whose label is \<^verbatim>\<open>toString\<close>.
  \<^verbatim>\<open>dist[lab] || 0\<close> reads the function inherited from \<^verbatim>\<open>Object.prototype\<close>, which
  is truthy, and \<^verbatim>\<open>+ 1\<close> appends to its source text: the distribution holds a string
  for that label and its values have no numeric sum, while the window has one record.
\<close>

theorem distribution_sum_inherited_label:
  "take 200 (diagnosis toString_store) =
     [labeled_record\<lparr>prediction :=
        Some \<lparr>disease_top = Some ''toString'', diseaseRes = None, outcomeRes = None\<rparr>\<rparr>] \<and>
   totalRecords (refreshStats toString_store blank_view) = 1 \<and>
   diagChart (refreshStats toString_store blank_view) =
     Some ([''toString''], [JStr ''function toString() { [native code] }1'']) \<and>
   numeric_sum [JStr ''function toString() { [native code] }1''] = None"
  by (simp add: refreshStats_def toString_store_def empty_store_def stats_label_def
      tally_toString Object_keys_def Object_values_def array_index_def digit_def js_get_def Let_def)

subsection \<open>The top diagnoses\<close>

lemma js_insort_insort_key:
  assumes "\<forall>y\<in>set ys. comes_first cmp x y = (f x \<le> f y)"
  shows "js_insort cmp x ys = insort_key f x ys"
  using assms by (induction ys) simp_all

lemma js_sort_sort_key:
  assumes "\<forall>x\<in>set xs. \<forall>y\<in>set xs. comes_first cmp x y = (f x \<le> f y)"
  shows "js_sort cmp xs = sort_key f xs"
  using assms
proof (induction xs)
  case Nil
  then show ?case by (simp add: js_sort_def)
next
  case (Cons x xs)
  then have ih: "js_sort cmp xs = sort_key f xs" by simp
  have "js_insort cmp x (sort_key f xs) = insort_key f x (sort_key f xs)"
    using Cons.prems by (intro js_insort_insort_key) simp
  then show ?case using ih by (simp add: js_sort_def)
qed

lemma top_diagnoses_sort_key:
  assumes "\<forall>k\<in>set ks. inherited k = JUndefined"
  shows "top_diagnoses (tally ks) =
           take 8 (sort_key (\<lambda>l. - int (count_list ks l)) (Object_keys (tally ks)))"
proof -
  have s: "set (Object_keys (tally ks)) = set ks"
    using tally_keys [OF assms] by (simp add: Object_keys_set)
  have "js_sort (\<lambda>a b. js_minus (js_get (tally ks) b) (js_get (tally ks) a)) (Object_keys (tally ks)) =
          sort_key (\<lambda>l. - int (count_list ks l)) (Object_keys (tally ks))"
    by (rule js_sort_sort_key) (auto simp add: s comes_first_def js_get_tally [OF assms])
  then show ?thesis by (simp add: top_diagnoses_def)
qed

lemma sorted_take_drop_le:
  assumes "sorted (map f xs)" "x \<in> set (take n xs)" "y \<in> set (drop n xs)"
  shows "f x \<le> f y"
proof -
  have "sorted (map f (take n xs) @ map f (drop n xs))"
    using assms(1) by (simp flip: map_append)
  then show ?thesis
    using assms(2,3) by (auto simp add: sorted_append)
qed

lemma filter_take_prefix: "prefix (filter P (take n xs)) (filter P xs)"
proof -
  have "filter P xs = filter P (take n xs) @ filter P (drop n xs)"
    by (simp flip: filter_append)
  then show ?thesis by (metis prefixI)
qed

lemma bump_keys:
  assumes "k \<noteq> ''__proto__''"
  shows "map fst (bump obj k) = (if k \<in> set (map fst obj) then map fst obj else map fst obj @ [k])"
  using assms by (simp add: bump_def js_set_def update_keys)

lemma foldl_bump_keys:
  assumes "\<forall>k\<in>set ks. inherited k = JUndefined"
    and "map fst obj = rev (remdups (rev ps))"
  shows "map fst (foldl bump obj ks) = rev (remdups (rev (ps @ ks)))"
  using assms
proof (induction ks arbitrary: obj ps)
  case Nil
  then show ?case by simp
next
  case (Cons k ks)
  have k: "k \<noteq> ''__proto__''" using Cons.prems(1) by (simp add: inherited_proto)
  have "map fst (bump obj k) = rev (remdups (rev (ps @ [k])))"
    using Cons.prems(2) by (simp add: bump_keys [OF k])
  with Cons.IH [of "bump obj k" "ps @ [k]"] Cons.prems(1) show ?case by simp
qed

lemma tally_key_order:
  assumes "\<forall>k\<in>set ks. inherited k = JUndefined"
  shows "map fst (tally ks) = rev (remdups (rev ks))"
  using foldl_bump_keys [OF assms, of "[]" "[]"] by (simp add: tally_def)

lemma Object_keys_no_index:
  assumes "\<forall>k\<in>fst ` set obj. \<not> array_index k"
  shows "Object_keys obj = map fst obj"
proof -
  have "filter array_index (map fst obj) = []" "filter (\<lambda>k. \<not> array_index k) (map fst obj) = map fst obj"
    using assms by (auto simp add: filter_empty_conv filter_id_conv)
  then show ?thesis by (simp add: Object_keys_def)
qed

lemma analytics_label_diagnosed: "d \<noteq> [] \<Longrightarrow> analytics_label (diagnosed d t) = d"
  by (simp add: analytics_label_def first_disease_def diagnosed_def)

lemma tally_Flu_Asthma: "tally [''Flu'', ''Asthma''] = [(''Flu'', JNum 1), (''Asthma'', JNum 1)]"
  by (simp add: tally_def bump_def js_get_def js_set_def inherited_def)

lemma tally_day1: "tally [''1970-01-01''] = [(''1970-01-01'', JNum 1)]"
  by (simp add: tally_def bump_def js_get_def js_set_def inherited_def)

lemma tally_day2: "tally [''1970-01-02''] = [(''1970-01-02'', JNum 1)]"
  by (simp add: tally_def bump_def js_get_def js_set_def inherited_def)

lemma tally_Flu: "tally [''Flu''] = [(''Flu'', JNum 1)]"
  by (simp add: tally_def bump_def js_get_def js_set_def inherited_def)

lemma no_index_samples:
  "\<not> array_index ''Flu''" "\<not> array_index ''Asthma''"
  "\<not> array_index ''1970-01-01''" "\<not> array_index ''1970-01-02''"
  by (simp_all add: array_index_def digit_def)

lemma createdAt_diagnosed: "createdAt (diagnosed d t) = Timestamp t"
  by (simp add: diagnosed_def)

lemma top_diagnoses_Flu_Asthma:
  "top_diagnoses (tally [''Flu'', ''Asthma'']) = [''Flu'', ''Asthma'']"
  "js_get (tally [''Flu'', ''Asthma'']) ''Flu'' = JNum 1"
  "js_get (tally [''Flu'', ''Asthma'']) ''Asthma'' = JNum 1"
  by (simp_all add: tally_Flu_Asthma top_diagnoses_def Object_keys_def no_index_samples
      js_sort_def comes_first_def js_get_def)

lemma two_label_window:
  "online two_label_store"
  "take 1000 (diagnosis two_label_store) = [diagnosed ''Flu'' 1, diagnosed ''Asthma'' 0]"
  by (simp_all add: two_label_store_def empty_store_def)

text \<open>
  The claim as stated fails on a window of two records, the newer diagnosed \<^verbatim>\<open>Flu\<close> and the
  older \<^verbatim>\<open>Asthma\<close>: both labels have count 1, and the chart lists \<^verbatim>\<open>Flu\<close> before
  \<^verbatim>\<open>Asthma\<close> although \<^verbatim>\<open>Asthma\<close> is the smaller label.
\<close>

theorem top_diagnoses_tie_counterexample:
  "topDxChart (fst (loadAnalyticsCharts epoch_iso_day 0 two_label_store blank_view)) =
     Some ([''Flu'', ''Asthma''], [JNum 1, JNum 1]) \<and> ''Asthma'' < ''Flu''"
  by (simp add: loadAnalyticsCharts_def two_label_window Let_def createdAt_diagnosed
      analytics_label_diagnosed top_diagnoses_Flu_Asthma)

lemma sorted_neg_counts:
  "sorted (map (\<lambda>x. - int (g x)) xs) \<Longrightarrow> sorted (rev (map g xs))"
  by (simp add: sorted_wrt_rev sorted_wrt_map sorted_map)

lemma topDxChart_loadAnalyticsCharts:
  assumes "online st" and "\<not> list_ex (\<lambda>r. createdAt r = RawTime) (take 1000 (diagnosis st))"
  shows "topDxChart (fst (loadAnalyticsCharts iso_day now st v)) =
           Some (top_diagnoses (tally (map analytics_label (take 1000 (diagnosis st)))),
                 map (js_get (tally (map analytics_label (take 1000 (diagnosis st)))))
                   (top_diagnoses (tally (map analytics_label (take 1000 (diagnosis st))))))"
  using assms by (simp add: loadAnalyticsCharts_def Let_def)

text \<open>
  C7 (as amended). For a window that loads (the query resolves, every \<^verbatim>\<open>createdAt\<close>
  is a Timestamp or missing) and whose labels name no member of \<^verbatim>\<open>Object.prototype\<close>,
  the labels of the top-diagnoses chart are the first 8 of the keys of \<^verbatim>\<open>dxCount\<close>
  sorted stably by descending count: at most 8 distinct labels of the window, their
  counts never increasing, no label left out that has a larger count than one
  listed, and labels of equal count in the order of \<^verbatim>\<open>Object.keys\<close>, which for
  labels that are not array indices is the order of first appearance in the window.
  No lexical tie-break takes place, and \<open>k\<close> is fixed at 8.
\<close>

theorem top_diagnoses_by_count:
  assumes on: "online st"
    and raw: "\<not> list_ex (\<lambda>r. createdAt r = RawTime) (take 1000 (diagnosis st))"
    and plain: "\<forall>r\<in>set (take 1000 (diagnosis st)). inherited (analytics_label r) = JUndefined"
    and labels: "labels = map analytics_label (take 1000 (diagnosis st))"
    and dxLabels: "dxLabels = top_diagnoses (tally labels)"
  shows "topDxChart (fst (loadAnalyticsCharts iso_day now st v)) =
           Some (dxLabels, map (\<lambda>l. JNum (count_list labels l)) dxLabels) \<and>
         dxLabels = take 8 (sort_key (\<lambda>l. - int (count_list labels l)) (Object_keys (tally labels))) \<and>
         distinct dxLabels \<and> set dxLabels \<subseteq> set labels \<and> length dxLabels = min 8 (card (set labels)) \<and>
         sorted (rev (map (count_list labels) dxLabels)) \<and>
         (\<forall>l\<in>set labels - set dxLabels. \<forall>m\<in>set dxLabels. count_list labels l \<le> count_list labels m) \<and>
         (\<forall>n. prefix (filter (\<lambda>l. count_list labels l = n) dxLabels)
                      (filter (\<lambda>l. count_list labels l = n) (Object_keys (tally labels)))) \<and>
         ((\<forall>l\<in>set labels. \<not> array_index l) \<longrightarrow>
            Object_keys (tally labels) = rev (remdups (rev labels)))"
proof -
  let ?keys = "Object_keys (tally labels)"
  let ?f = "\<lambda>l. - int (count_list labels l)"
  let ?S = "sort_key ?f ?keys"
  have pl: "\<forall>k\<in>set labels. inherited k = JUndefined"
    using plain by (simp add: labels)
  have K: "set ?keys = set labels"
    using tally_keys [OF pl] by (simp add: Object_keys_set)
  have D: "distinct ?keys"
    by (rule Object_keys_distinct) (rule tally_distinct)
  have T: "dxLabels = take 8 ?S"
    unfolding dxLabels by (rule top_diagnoses_sort_key [OF pl])
  have sub: "set dxLabels \<subseteq> set labels"
    using set_take_subset [of 8 ?S] by (simp add: T K)
  have c1: "topDxChart (fst (loadAnalyticsCharts iso_day now st v)) =
              Some (dxLabels, map (\<lambda>l. JNum (count_list labels l)) dxLabels)"
  proof -
    have "map (js_get (tally labels)) dxLabels = map (\<lambda>l. JNum (count_list labels l)) dxLabels"
      using sub by (intro map_cong refl js_get_tally [OF pl]) auto
    then show ?thesis
      using topDxChart_loadAnalyticsCharts [OF on raw, of iso_day now v]
      by (simp add: labels [symmetric] dxLabels [symmetric])
  qed
  have c3: "distinct dxLabels"
    using D by (simp add: T)
  have lk: "length ?keys = card (set labels)"
    using distinct_card [OF D] by (simp add: K)
  have "length dxLabels = min (length ?S) 8"
    unfolding T by (rule length_take)
  then have c5: "length dxLabels = min 8 (card (set labels))"
    using lk by simp
  have srt: "sorted (map ?f ?S)"
    by (rule sorted_sort_key)
  have "sorted (take 8 (map ?f ?S))"
    using srt by (rule sorted_wrt_take)
  then have "sorted (map ?f dxLabels)"
    unfolding T take_map .
  then have c6: "sorted (rev (map (count_list labels) dxLabels))"
    by (rule sorted_neg_counts)
  have c7: "\<forall>l\<in>set labels - set dxLabels. \<forall>m\<in>set dxLabels. count_list labels l \<le> count_list labels m"
  proof (intro ballI)
    fix l m
    assume l: "l \<in> set labels - set dxLabels" and m: "m \<in> set dxLabels"
    have l1: "l \<in> set ?S"
      using l by (simp add: K)
    have l2: "l \<notin> set (take 8 ?S)"
      using l unfolding T by simp
    have "set ?S = set (take 8 ?S) \<union> set (drop 8 ?S)"
      unfolding set_append [symmetric] append_take_drop_id ..
    with l1 l2 have l3: "l \<in> set (drop 8 ?S)"
      by blast
    have m': "m \<in> set (take 8 ?S)"
      using m unfolding T .
    have "- int (count_list labels m) \<le> - int (count_list labels l)"
      using srt m' l3 by (rule sorted_take_drop_le)
    then show "count_list labels l \<le> count_list labels m"
      by simp
  qed
  have c8: "\<forall>n. prefix (filter (\<lambda>l. count_list labels l = n) dxLabels)
                        (filter (\<lambda>l. count_list labels l = n) ?keys)"
  proof
    fix n
    have "filter (\<lambda>l. ?f l = - int n) ?S = filter (\<lambda>l. ?f l = - int n) ?keys"
      by (rule sort_key_stable)
    then have "filter (\<lambda>l. count_list labels l = n) ?S = filter (\<lambda>l. count_list labels l = n) ?keys"
      by simp
    then show "prefix (filter (\<lambda>l. count_list labels l = n) dxLabels)
                      (filter (\<lambda>l. count_list labels l = n) ?keys)"
      using filter_take_prefix [of "\<lambda>l. count_list labels l = n" 8 ?S] by (simp add: T)
  qed
  have c9: "(\<forall>l\<in>set labels. \<not> array_index l) \<longrightarrow> ?keys = rev (remdups (rev labels))"
  proof
    assume "\<forall>l\<in>set labels. \<not> array_index l"
    then have "\<forall>k\<in>fst ` set (tally labels). \<not> array_index k"
      using tally_keys [OF pl] by simp
    then show "?keys = rev (remdups (rev labels))"
      by (simp add: Object_keys_no_index tally_key_order [OF pl])
  qed
  show ?thesis
    by (intro conjI c1 T c3 sub c5 c6 c7 c8 c9)
qed

lemma diagnosed_plain:
  "inherited ''Flu'' = JUndefined" "inherited ''Asthma'' = JUndefined"
  by (simp_all add: inherited_def)

theorem top_diagnoses_by_count_witness:
  "online two_label_store \<and>
   createdAt (diagnosed ''Flu'' 1) \<noteq> RawTime \<and> createdAt (diagnosed ''Asthma'' 0) \<noteq> RawTime \<and>
   inherited (analytics_label (diagnosed ''Flu'' 1)) = JUndefined \<and>
   inherited (analytics_label (diagnosed ''Asthma'' 0)) = JUndefined \<and>
   map analytics_label (take 1000 (diagnosis two_label_store)) = [''Flu'', ''Asthma''] \<and>
   top_diagnoses (tally [''Flu'', ''Asthma'']) = [''Flu'', ''Asthma''] \<and>
   topDxChart (fst (loadAnalyticsCharts epoch_iso_day 0 two_label_store blank_view)) =
     Some ([''Flu'', ''Asthma''], [JNum 1, JNum 1]) \<and>
   Object_keys (tally [''Flu'', ''Asthma'']) = [''Flu'', ''Asthma'']"
proof -
  have on: "online two_label_store"
    by (rule two_label_window)
  have raw: "\<not> list_ex (\<lambda>r. createdAt r = RawTime) (take 1000 (diagnosis two_label_store))"
    by (simp add: two_label_window createdAt_diagnosed)
  have plain: "\<forall>r\<in>set (take 1000 (diagnosis two_label_store)).
                 inherited (analytics_label r) = JUndefined"
    by (simp add: two_label_window analytics_label_diagnosed diagnosed_plain)
  have labels: "[''Flu'', ''Asthma''] = map analytics_label (take 1000 (diagnosis two_label_store))"
    by (simp add: two_label_window analytics_label_diagnosed)
  have top: "[''Flu'', ''Asthma''] = top_diagnoses (tally [''Flu'', ''Asthma''])"
    by (simp add: top_diagnoses_Flu_Asthma)
  show ?thesis
    using top_diagnoses_by_count [OF on raw plain labels top, of epoch_iso_day 0 blank_view]
    by (simp add: on createdAt_diagnosed analytics_label_diagnosed diagnosed_plain
        two_label_window top_diagnoses_Flu_Asthma no_index_samples)
qed

subsection \<open>Repeating an aggregation\<close>

lemma refreshStats_twice: "refreshStats st (refreshStats st v) = refreshStats st v"
  by (simp add: refreshStats_def Let_def)

lemma record_day_timestamped:
  assumes "createdAt r \<noteq> NoTimestamp \<or> iso_day now = iso_day now'"
  shows "record_day iso_day now r = record_day iso_day now' r"
  using assms by (auto simp add: record_day_def split: created_at.splits)

lemma loadAnalyticsCharts_clock:
  assumes "(\<forall>r\<in>set (take 1000 (diagnosis st)). createdAt r \<noteq> NoTimestamp) \<or> iso_day now = iso_day now'"
  shows "loadAnalyticsCharts iso_day now st v = loadAnalyticsCharts iso_day now' st v"
proof -
  have eq: "map (record_day iso_day now) (take 1000 (diagnosis st)) =
            map (record_day iso_day now') (take 1000 (diagnosis st))"
    using assms by (intro map_cong refl record_day_timestamped) auto
  show ?thesis
    by (simp only: loadAnalyticsCharts_def Let_def eq)
qed

lemma loadAnalyticsCharts_twice:
  "loadAnalyticsCharts iso_day now st (fst (loadAnalyticsCharts iso_day now st v)) =
     loadAnalyticsCharts iso_day now st v"
  by (simp add: loadAnalyticsCharts_def Let_def)

lemma loadAnalyticsCharts_topDx_clock:
  "topDxChart (fst (loadAnalyticsCharts iso_day now' st (fst (loadAnalyticsCharts iso_day now st v)))) =
     topDxChart (fst (loadAnalyticsCharts iso_day now st v))"
  by (simp add: loadAnalyticsCharts_def Let_def)

text \<open>
  C6 (as amended). Running \<^verbatim>\<open>refreshStats\<close> again on the same store gives the same
  view; running \<^verbatim>\<open>loadAnalyticsCharts\<close> again on the same store, at any later time,
  gives the same top diagnoses; and it gives the same result altogether, time series
  included, when every record of the window has a \<^verbatim>\<open>createdAt\<close> or the clock is still
  on the same day. The functions read the store and return only the view: no record
  is changed.
\<close>

theorem aggregate_repeatable:
  "refreshStats st (refreshStats st v) = refreshStats st v \<and>
   topDxChart (fst (loadAnalyticsCharts iso_day now' st (fst (loadAnalyticsCharts iso_day now st v)))) =
     topDxChart (fst (loadAnalyticsCharts iso_day now st v)) \<and>
   ((\<forall>r\<in>set (take 1000 (diagnosis st)). createdAt r \<noteq> NoTimestamp) \<or> iso_day now = iso_day now' \<longrightarrow>
      loadAnalyticsCharts iso_day now' st (fst (loadAnalyticsCharts iso_day now st v)) =
        loadAnalyticsCharts iso_day now st v)"
proof (intro conjI impI)
  show "refreshStats st (refreshStats st v) = refreshStats st v"
    by (rule refreshStats_twice)
  show "topDxChart (fst (loadAnalyticsCharts iso_day now' st (fst (loadAnalyticsCharts iso_day now st v)))) =
          topDxChart (fst (loadAnalyticsCharts iso_day now st v))"
    by (rule loadAnalyticsCharts_topDx_clock)
  assume a: "(\<forall>r\<in>set (take 1000 (diagnosis st)). createdAt r \<noteq> NoTimestamp) \<or> iso_day now = iso_day now'"
  have "loadAnalyticsCharts iso_day now' st (fst (loadAnalyticsCharts iso_day now st v)) =
        loadAnalyticsCharts iso_day now st (fst (loadAnalyticsCharts iso_day now st v))"
    by (rule loadAnalyticsCharts_clock [symmetric]) (rule a)
  then show "loadAnalyticsCharts iso_day now' st (fst (loadAnalyticsCharts iso_day now st v)) =
             loadAnalyticsCharts iso_day now st v"
    by (simp only: loadAnalyticsCharts_twice)
qed

theorem aggregate_repeatable_witness:
  "createdAt (diagnosed ''Flu'' 1) \<noteq> NoTimestamp \<and> createdAt (diagnosed ''Asthma'' 0) \<noteq> NoTimestamp \<and>
   refreshStats two_label_store (refreshStats two_label_store blank_view) =
     refreshStats two_label_store blank_view \<and>
   loadAnalyticsCharts epoch_iso_day 86400000 two_label_store
     (fst (loadAnalyticsCharts epoch_iso_day 0 two_label_store blank_view)) =
     loadAnalyticsCharts epoch_iso_day 0 two_label_store blank_view"
  using aggregate_repeatable [of two_label_store blank_view epoch_iso_day 86400000 0]
  by (simp add: two_label_window createdAt_diagnosed)

lemma pending_window:
  "online pending_store"
  "take 1000 (diagnosis pending_store) = [(diagnosed ''Flu'' 0)\<lparr>createdAt := NoTimestamp\<rparr>]"
  by (simp_all add: pending_store_def empty_store_def)

lemma pending_day:
  "record_day epoch_iso_day 0 ((diagnosed ''Flu'' 0)\<lparr>createdAt := NoTimestamp\<rparr>) = ''1970-01-01''"
  "record_day epoch_iso_day 86400000 ((diagnosed ''Flu'' 0)\<lparr>createdAt := NoTimestamp\<rparr>) = ''1970-01-02''"
  by (simp_all add: record_day_def epoch_iso_day_def)

lemma day_charts:
  "sort (Object_keys (tally [''1970-01-01''])) = [''1970-01-01'']"
  "sort (Object_keys (tally [''1970-01-02''])) = [''1970-01-02'']"
  "js_get (tally [''1970-01-01'']) ''1970-01-01'' = JNum 1"
  "js_get (tally [''1970-01-02'']) ''1970-01-02'' = JNum 1"
  by (simp_all add: tally_day1 tally_day2 Object_keys_def no_index_samples js_get_def)

lemma timeChart_loadAnalyticsCharts:
  assumes "online st" and "\<not> list_ex (\<lambda>r. createdAt r = RawTime) (take 1000 (diagnosis st))"
  shows "recordsTimeChart (fst (loadAnalyticsCharts iso_day now st v)) =
           Some (sort (Object_keys (tally (map (record_day iso_day now) (take 1000 (diagnosis st))))),
                 map (js_get (tally (map (record_day iso_day now) (take 1000 (diagnosis st)))))
                   (sort (Object_keys (tally (map (record_day iso_day now) (take 1000 (diagnosis st)))))))"
  using assms by (simp add: loadAnalyticsCharts_def Let_def)

text \<open>
  The claim as stated fails on a window whose only record has no \<^verbatim>\<open>createdAt\<close> yet (a local
  write whose server timestamp is pending): the record is counted under the day that
  \<^verbatim>\<open>new Date()\<close> reads, so a second call on the same window one day later yields
  another time series.
\<close>

theorem time_series_clock_counterexample:
  "recordsTimeChart (fst (loadAnalyticsCharts epoch_iso_day 0 pending_store blank_view)) =
     Some ([''1970-01-01''], [JNum 1]) \<and>
   recordsTimeChart (fst (loadAnalyticsCharts epoch_iso_day 86400000 pending_store
       (fst (loadAnalyticsCharts epoch_iso_day 0 pending_store blank_view)))) =
     Some ([''1970-01-02''], [JNum 1])"
proof -
  have raw: "\<not> list_ex (\<lambda>r. createdAt r = RawTime) (take 1000 (diagnosis pending_store))"
    by (simp add: pending_window)
  show ?thesis
    by (simp add: timeChart_loadAnalyticsCharts [OF pending_window(1) raw] pending_window(2)
        pending_day day_charts)
qed

subsection \<open>Timers and listeners of the page\<close>

lemma invoke_keeps:
  "listeners (invoke sv iso_day now st user p l) = listeners p"
  "timers (invoke sv iso_day now st user p l) = timers p"
  "auth (invoke sv iso_day now st user p l) = auth p"
  by (simp_all add: invoke_def Let_def)

lemma foldl_invoke_keeps:
  "listeners (foldl (invoke sv iso_day now st user) p ls) = listeners p \<and>
   timers (foldl (invoke sv iso_day now st user) p ls) = timers p \<and>
   auth (foldl (invoke sv iso_day now st user) p ls) = auth p"
  by (induction ls arbitrary: p) (simp_all add: invoke_keeps)

lemma register_keeps:
  "listeners (register sv iso_day now st l p) = listeners p @ [l]"
  "timers (register sv iso_day now st l p) = timers p"
  "auth (register sv iso_day now st l p) = auth p"
  by (simp_all add: register_def Let_def invoke_keeps split: auth_state.splits)

lemma step_navigated: "navigated p \<Longrightarrow> step sv iso_day st p te = p"
  by (simp add: step_def)

lemma run_navigated: "navigated p \<Longrightarrow> run sv iso_day st evs p = p"
  by (induction evs) (simp_all add: run_def step_navigated)

lemma run_Cons: "run sv iso_day st (te # evs) p = run sv iso_day st evs (step sv iso_day st p te)"
  by (simp add: run_def)

lemma step_timers: "timers (step sv iso_day st p te) = timers p"
  by (cases te; cases "snd te")
     (simp_all add: step_def register_keeps foldl_invoke_keeps)

lemma run_timers: "timers (run sv iso_day st evs p) = timers p"
  by (induction evs arbitrary: p) (simp_all add: run_Cons step_timers, simp add: run_def)

lemma step_listeners:
  "\<not> navigated p \<Longrightarrow> listeners (step sv iso_day st p te) = listeners p @ registered te"
  by (cases te; cases "snd te")
     (simp_all add: step_def register_keeps foldl_invoke_keeps)

lemma run_listeners:
  "\<not> navigated (run sv iso_day st evs p) \<Longrightarrow>
     listeners (run sv iso_day st evs p) = listeners p @ concat (map registered evs)"
proof (induction evs arbitrary: p)
  case Nil
  then show ?case by (simp add: run_def)
next
  case (Cons te evs)
  have n1: "\<not> navigated (step sv iso_day st p te)"
    using Cons.prems run_navigated [of "step sv iso_day st p te" sv iso_day st evs]
    by (auto simp add: run_Cons)
  have n0: "\<not> navigated p"
    using n1 step_navigated [of p sv iso_day st te] by auto
  have "listeners (run sv iso_day st evs (step sv iso_day st p te)) =
          listeners (step sv iso_day st p te) @ concat (map registered evs)"
    using Cons.prems by (intro Cons.IH) (simp add: run_Cons)
  then show ?case
    by (simp add: run_Cons step_listeners [OF n0])
qed

lemma invoke_signed_in_navigated:
  "navigated (invoke sv iso_day now st (Some u) p l) = navigated p"
  by (cases l) (simp_all add: invoke_def Let_def run_listener_def showAnalyticsIfAdmin_def)

lemma foldl_invoke_signed_in_navigated:
  "navigated (foldl (invoke sv iso_day now st (Some u)) p ls) = navigated p"
  by (induction ls arbitrary: p) (simp_all add: invoke_signed_in_navigated)

lemma session_not_navigated:
  "\<not> navigated (run sv iso_day st (session u) start_page)"
proof -
  let ?p1 = "step sv iso_day st start_page (0, WindowLoad)"
  let ?p2 = "step sv iso_day st ?p1 (0, AuthStateChanged (Some u))"
  let ?p3 = "step sv iso_day st ?p2 (300000, TimerTick)"
  let ?p4 = "step sv iso_day st ?p3 (600000, TimerTick)"
  have p1: "\<not> navigated ?p1" "auth ?p1 = Unresolved"
    by (simp_all add: step_def register_def start_page_def)
  have p2: "\<not> navigated ?p2" "auth ?p2 = Resolved (Some u)"
    using p1 by (simp_all add: step_def foldl_invoke_signed_in_navigated foldl_invoke_keeps)
  have p3: "\<not> navigated ?p3" "auth ?p3 = Resolved (Some u)"
    using p2 by (simp_all add: step_def register_def invoke_signed_in_navigated invoke_keeps)
  have p4: "\<not> navigated ?p4"
    using p3 by (simp add: step_def register_def invoke_signed_in_navigated)
  then show ?thesis
    by (simp add: run_def session_def)
qed

text \<open>
  C9 (as amended). Whatever events occur after the script has been evaluated, exactly
  one interval timer exists (it is never cleared and does not depend on the auth
  state). The listeners are not unique: as long as the page has not been sent to the
  login page, the registered auth-state listeners are the admin-check listener of the
  script followed by one listener for every \<^verbatim>\<open>load\<close> event and every tick of the
  timer, in the order of these events; a change of the auth state registers nothing
  and nothing is ever removed.
\<close>

theorem listeners_accumulate:
  "timers (run sv iso_day st evs start_page) = 1 \<and>
   (\<not> navigated (run sv iso_day st evs start_page) \<longrightarrow>
      listeners (run sv iso_day st evs start_page) = AdminListener # concat (map registered evs))"
  by (simp add: run_timers run_listeners) (simp add: start_page_def)

theorem listeners_accumulate_witness:
  "\<not> navigated (run flu_services epoch_iso_day staff_store (session ''a1'') start_page) \<and>
   timers (run flu_services epoch_iso_day staff_store (session ''a1'') start_page) = 1 \<and>
   listeners (run flu_services epoch_iso_day staff_store (session ''a1'') start_page) =
     [AdminListener, InitListener, TickListener, TickListener]"
  using listeners_accumulate [of flu_services epoch_iso_day staff_store "session ''a1''"]
        session_not_navigated [of flu_services epoch_iso_day staff_store "''a1''"]
  by (simp add: session_def)

text \<open>
  The claim as stated fails in an ordinary session (the page loads, a doctor signs
  in, the timer ticks twice): the page is not left, one timer exists, and four
  auth-state listeners are registered, the tick listener twice.
\<close>

theorem listeners_duplicated_counterexample:
  "\<not> navigated (run flu_services epoch_iso_day staff_store (session ''d1'') start_page) \<and>
   timers (run flu_services epoch_iso_day staff_store (session ''d1'') start_page) = 1 \<and>
   listeners (run flu_services epoch_iso_day staff_store (session ''d1'') start_page) =
     [AdminListener, InitListener, TickListener, TickListener]"
  by (simp add: session_not_navigated run_timers run_listeners)
     (simp add: start_page_def session_def)

subsection \<open>The role gate\<close>

lemma showAnalyticsIfAdmin_calls:
  "snd (showAnalyticsIfAdmin iso_day now (Some u) st v) =
     (if lookup_role st u = Some ''admin'' then [Call_loadAnalyticsCharts] else [])"
  by (simp add: showAnalyticsIfAdmin_def)

lemma loadAnalyticsCharts_card:
  "analyticsCard (fst (loadAnalyticsCharts iso_day now st v)) = analyticsCard v"
  by (simp add: loadAnalyticsCharts_def Let_def)

lemma showAnalyticsIfAdmin_card:
  "analyticsCard (fst (showAnalyticsIfAdmin iso_day now (Some u) st v)) =
     (lookup_role st u = Some ''admin'')"
  by (simp add: showAnalyticsIfAdmin_def loadAnalyticsCharts_card)

lemma run_listener_loads:
  "Call_loadAnalyticsCharts \<in> set (snd (run_listener sv iso_day now st l user v)) \<longleftrightarrow>
     l \<noteq> InitListener \<and> (\<exists>u. user = Some u \<and> lookup_role st u = Some ''admin'')"
  by (cases l; cases user) (simp_all add: run_listener_def showAnalyticsIfAdmin_calls)

lemma invoke_loads:
  assumes "\<forall>u. user = Some u \<longrightarrow> lookup_role st u \<noteq> Some ''admin''"
  shows "Call_loadAnalyticsCharts \<in> set (calls (invoke sv iso_day now st user p l)) \<longleftrightarrow>
           Call_loadAnalyticsCharts \<in> set (calls p)"
  using assms by (auto simp add: invoke_def Let_def run_listener_loads)

lemma foldl_invoke_loads:
  assumes "\<forall>u. user = Some u \<longrightarrow> lookup_role st u \<noteq> Some ''admin''"
  shows "Call_loadAnalyticsCharts \<in> set (calls (foldl (invoke sv iso_day now st user) p ls)) \<longleftrightarrow>
           Call_loadAnalyticsCharts \<in> set (calls p)"
  by (induction ls arbitrary: p) (simp_all add: invoke_loads [OF assms])

lemma register_loads:
  assumes "\<forall>u. auth p = Resolved (Some u) \<longrightarrow> lookup_role st u \<noteq> Some ''admin''"
  shows "Call_loadAnalyticsCharts \<in> set (calls (register sv iso_day now st l p)) \<longleftrightarrow>
           Call_loadAnalyticsCharts \<in> set (calls p)"
proof (cases "auth p")
  case Unresolved
  then show ?thesis by (simp add: register_def)
next
  case (Resolved user)
  with assms have "\<forall>u. user = Some u \<longrightarrow> lookup_role st u \<noteq> Some ''admin''" by simp
  from invoke_loads [OF this] Resolved show ?thesis by (simp add: register_def)
qed

lemma step_auth:
  "auth (step sv iso_day st p te) =
     (if navigated p then auth p
      else case snd te of AuthStateChanged user \<Rightarrow> Resolved user | _ \<Rightarrow> auth p)"
  by (cases "snd te") (simp_all add: step_def register_keeps foldl_invoke_keeps)

lemma step_loads:
  assumes a: "\<forall>u. auth p = Resolved (Some u) \<longrightarrow> lookup_role st u \<noteq> Some ''admin''"
    and e: "\<forall>u. snd te = AuthStateChanged (Some u) \<longrightarrow> lookup_role st u \<noteq> Some ''admin''"
  shows "Call_loadAnalyticsCharts \<in> set (calls (step sv iso_day st p te)) \<longleftrightarrow>
           Call_loadAnalyticsCharts \<in> set (calls p)"
proof (cases "navigated p")
  case True
  then show ?thesis by (simp add: step_navigated)
next
  case False
  show ?thesis
  proof (cases "snd te")
    case WindowLoad
    with False show ?thesis by (simp add: step_def register_loads [OF a])
  next
    case TimerTick
    with False show ?thesis by (simp add: step_def register_loads [OF a])
  next
    case (AuthStateChanged user)
    with e have "\<forall>u. user = Some u \<longrightarrow> lookup_role st u \<noteq> Some ''admin''" by simp
    from foldl_invoke_loads [OF this] AuthStateChanged False show ?thesis
      by (simp add: step_def)
  qed
qed

lemma run_loads:
  assumes "\<forall>u. auth p = Resolved (Some u) \<longrightarrow> lookup_role st u \<noteq> Some ''admin''"
    and "\<forall>t u. (t, AuthStateChanged (Some u)) \<in> set evs \<longrightarrow> lookup_role st u \<noteq> Some ''admin''"
  shows "Call_loadAnalyticsCharts \<in> set (calls (run sv iso_day st evs p)) \<longleftrightarrow>
           Call_loadAnalyticsCharts \<in> set (calls p)"
  using assms
proof (induction evs arbitrary: p)
  case Nil
  then show ?case by (simp add: run_def)
next
  case (Cons te evs)
  have e: "\<forall>u. snd te = AuthStateChanged (Some u) \<longrightarrow> lookup_role st u \<noteq> Some ''admin''"
  proof (intro allI impI)
    fix u assume "snd te = AuthStateChanged (Some u)"
    then have "(fst te, AuthStateChanged (Some u)) \<in> set (te # evs)"
      by (cases te) simp
    with Cons.prems(2) show "lookup_role st u \<noteq> Some ''admin''" by blast
  qed
  have a': "\<forall>u. auth (step sv iso_day st p te) = Resolved (Some u) \<longrightarrow>
                 lookup_role st u \<noteq> Some ''admin''"
    using Cons.prems(1) e by (auto simp add: step_auth split: if_splits event.splits)
  have "Call_loadAnalyticsCharts \<in> set (calls (run sv iso_day st evs (step sv iso_day st p te))) \<longleftrightarrow>
          Call_loadAnalyticsCharts \<in> set (calls (step sv iso_day st p te))"
    using a' Cons.prems(2) by (intro Cons.IH) auto
  then show ?case
    by (simp add: run_Cons step_loads [OF Cons.prems(1) e])
qed

lemma staff_roles:
  "lookup_role staff_store ''d1'' = Some ''doctor''"
  "lookup_role staff_store ''a1'' = Some ''admin''"
  "users staff_store ''n1'' = NotFound"
  by (simp_all add: lookup_role_def staff_store_def empty_store_def)

text \<open>
  C2 (as amended). A listener called for a signed-in user calls
  \<^verbatim>\<open>loadAnalyticsCharts\<close> (the window of 1000 records) exactly when it is one of the
  two admin-check listeners and the role lookup gives \<^verbatim>\<open>admin\<close>; the analytics card
  is shown exactly then; the lookup gives no role when the store cannot be reached,
  the lookup rejects or no profile exists (fail-closed); in a run of the page in which
  no user who signs in resolves to \<^verbatim>\<open>admin\<close>, \<^verbatim>\<open>loadAnalyticsCharts\<close> is never called.
  The model metrics are not gated: the INIT listener calls
  \<^verbatim>\<open>generateModelMetricsFromRecords\<close> (window 200) for every signed-in user, whatever
  the role.
\<close>

theorem admin_gate:
  "(Call_loadAnalyticsCharts \<in> set (snd (run_listener sv iso_day now st l (Some u) v)) \<longleftrightarrow>
      l \<noteq> InitListener \<and> lookup_role st u = Some ''admin'') \<and>
   (analyticsCard (fst (showAnalyticsIfAdmin iso_day now (Some u) st v)) \<longleftrightarrow>
      lookup_role st u = Some ''admin'') \<and>
   (\<not> online st \<or> users st u = LookupRejected \<or> users st u = NotFound \<longrightarrow>
      lookup_role st u = None) \<and>
   ((\<forall>t w. (t, AuthStateChanged (Some w)) \<in> set evs \<longrightarrow> lookup_role st w \<noteq> Some ''admin'') \<longrightarrow>
      Call_loadAnalyticsCharts \<notin> set (calls (run sv iso_day st evs start_page))) \<and>
   Call_generateModelMetricsFromRecords 200 \<in>
     set (snd (run_listener sv iso_day now st InitListener (Some u) v))"
proof (intro conjI impI)
  show "Call_loadAnalyticsCharts \<in> set (snd (run_listener sv iso_day now st l (Some u) v)) \<longleftrightarrow>
          l \<noteq> InitListener \<and> lookup_role st u = Some ''admin''"
    by (simp add: run_listener_loads)
  show "analyticsCard (fst (showAnalyticsIfAdmin iso_day now (Some u) st v)) \<longleftrightarrow>
          lookup_role st u = Some ''admin''"
    by (rule showAnalyticsIfAdmin_card)
  show "lookup_role st u = None"
    if "\<not> online st \<or> users st u = LookupRejected \<or> users st u = NotFound"
    using that by (auto simp add: lookup_role_def)
  show "Call_loadAnalyticsCharts \<notin> set (calls (run sv iso_day st evs start_page))"
    if "\<forall>t w. (t, AuthStateChanged (Some w)) \<in> set evs \<longrightarrow> lookup_role st w \<noteq> Some ''admin''"
  proof -
    have "\<forall>u. auth start_page = Resolved (Some u) \<longrightarrow> lookup_role st u \<noteq> Some ''admin''"
      by (simp add: start_page_def)
    from run_loads [OF this that] show ?thesis
      by (simp add: start_page_def)
  qed
  show "Call_generateModelMetricsFromRecords 200 \<in>
          set (snd (run_listener sv iso_day now st InitListener (Some u) v))"
    by (simp add: run_listener_def)
qed

theorem admin_gate_witness:
  "lookup_role staff_store ''a1'' = Some ''admin'' \<and>
   Call_loadAnalyticsCharts \<in>
     set (snd (run_listener flu_services epoch_iso_day 0 staff_store AdminListener (Some ''a1'') blank_view)) \<and>
   analyticsCard (fst (showAnalyticsIfAdmin epoch_iso_day 0 (Some ''a1'') staff_store blank_view)) \<and>
   lookup_role staff_store ''d1'' = Some ''doctor'' \<and>
   Call_loadAnalyticsCharts \<notin>
     set (calls (run flu_services epoch_iso_day staff_store (session ''d1'') start_page)) \<and>
   users staff_store ''n1'' = NotFound \<and> lookup_role staff_store ''n1'' = None \<and>
   Call_generateModelMetricsFromRecords 200 \<in>
     set (snd (run_listener flu_services epoch_iso_day 0 staff_store InitListener (Some ''a1'') blank_view))"
  using admin_gate [of flu_services epoch_iso_day 0 staff_store AdminListener "''a1''" blank_view
                       "session ''d1''"]
        admin_gate [of flu_services epoch_iso_day 0 staff_store AdminListener "''n1''" blank_view "[]"]
  by (simp add: staff_roles session_def)

text \<open>
  The claim as stated fails for a user whose role is \<^verbatim>\<open>doctor\<close>: when that user signs
  in, the INIT listener calls \<^verbatim>\<open>generateModelMetricsFromRecords\<close>.
\<close>

theorem doctor_triggers_metrics_counterexample:
  "lookup_role staff_store ''d1'' = Some ''doctor'' \<and>
   snd (run_listener flu_services epoch_iso_day 0 staff_store InitListener (Some ''d1'') blank_view) =
     [Call_refreshStats, Call_loadFeatureImportance, Call_generateModelMetricsFromRecords 200] \<and>
   calls (run flu_services epoch_iso_day staff_store (session ''d1'') start_page) =
     [Call_showAnalyticsIfAdmin, Call_refreshStats, Call_loadFeatureImportance,
      Call_generateModelMetricsFromRecords 200, Call_showAnalyticsIfAdmin,
      Call_showAnalyticsIfAdmin]"
  by (simp add: staff_roles run_listener_def run_def session_def step_def register_def
      invoke_def start_page_def showAnalyticsIfAdmin_calls Let_def)

end
